theory Spec2Isabelle
  imports Complex_Main
begin

section \<open>Data model (src/src/lib/supabase.ts, src/src/pages/Results.tsx)\<close>

text \<open>
  The records hold the values of the store's columns: the \<open>numeric(10,2)\<close> columns
  (prices, lux levels) as exact rationals, the \<open>integer\<close> column \<open>quantity\<close> as an
  integer. The component state keeps the total in exact arithmetic; the value the engine
  computes for it in binary64 is \<open>reduce_total64\<close>, and the two agree when no operation
  rounds.
  A nullable column or an optional TypeScript field (\<open>selected_model?\<close>) is an
  \<open>option\<close>, with \<open>None\<close> for \<open>null\<close>/\<open>undefined\<close>. The field \<open>id\<close> and
  \<open>created_at\<close> of the interfaces carry the interface as a suffix, since a record
  field is a constant of the theory.
\<close>

record FixtureModel =
  id_model :: string
  model_name :: string
  manufacturer :: string
  fixture_type :: string
  wattage :: rat
  lumens :: rat
  unit_price :: rat
  description :: string
  created_at_model :: string

record Project =
  id_project :: string
  name :: string
  file_name :: string
  file_type :: string
  upload_date :: string
  total_fixtures :: int
  total_cost :: rat
  average_lux :: rat
  user_id :: string
  created_at_project :: string

text \<open>
  \<open>ExtendedFixture\<close> is \<open>Fixture\<close> with the three optional fields of Results.tsx; a row
  as the store returns it has \<open>recommendations\<close> and \<open>showRecommendations\<close> absent.
\<close>

record ExtendedFixture =
  id_fixture :: string
  project_id :: string
  room_name :: string
  detected_symbol :: string
  selected_model_id :: "string option"
  quantity :: int
  lux_level :: rat
  created_at_fixture :: string
  selected_model :: "FixtureModel option"
  recommendations :: "FixtureModel list option"
  showRecommendations :: "bool option"

datatype PostgrestError = PostgrestError string

text \<open>The \<open>{ data, error }\<close> pair every store call resolves to.\<close>

record 'a response =
  data :: "'a option"
  error :: "PostgrestError option"

datatype store_call =
    SelectProject "string option"
  | SelectFixtures "string option"
  | SelectModels
  | UpdateFixture string string

datatype log_entry = ConsoleError string PostgrestError

text \<open>
  The component state of \<open>Results\<close> (its \<open>useState\<close> cells), with the two effects of its
  handlers made explicit: the calls issued to the store and the lines written by
  \<open>console.error\<close>.
\<close>

record ResultsState =
  project :: "Project option"
  fixtures :: "ExtendedFixture list"
  allModels :: "FixtureModel list"
  totalCost :: rat
  loading :: bool
  store_calls :: "store_call list"
  console :: "log_entry list"

definition initialState :: ResultsState where
  "initialState =
     \<lparr>project = None, fixtures = [], allModels = [], totalCost = 0, loading = True,
      store_calls = [], console = []\<rparr>"

section \<open>Cost aggregation (Results.tsx, calculateTotalCost)\<close>

text \<open>\<open>x || 0\<close> on a possibly undefined number: \<open>undefined\<close> and \<open>0\<close> are falsy.\<close>

definition or_zero :: "rat option \<Rightarrow> rat" where
  "or_zero v = (case v of None \<Rightarrow> 0 | Some p \<Rightarrow> if p = 0 then 0 else p)"

text \<open>\<open>fixture.selected_model?.unit_price\<close>\<close>

definition selected_unit_price :: "ExtendedFixture \<Rightarrow> rat option" where
  "selected_unit_price fixture = map_option unit_price (selected_model fixture)"

text \<open>The value \<open>reduce\<close> computes, left to right from 0.\<close>

definition reduce_total :: "ExtendedFixture list \<Rightarrow> rat" where
  "reduce_total fixturesList =
     foldl (\<lambda>sum fixture.
              let price = or_zero (selected_unit_price fixture)
              in sum + price * of_int (quantity fixture))
           0 fixturesList"

definition calculateTotalCost :: "ExtendedFixture list \<Rightarrow> ResultsState \<Rightarrow> ResultsState" where
  "calculateTotalCost fixturesList s = s\<lparr>totalCost := reduce_total fixturesList\<rparr>"

text \<open>
  The specification's formula, written from its words:
  \<open>total(fixtures) = \<Sum> (fixture.selectedModel?.unitPrice ?? 0) \<times> fixture.quantity\<close>.
\<close>

definition spec_line_total :: "ExtendedFixture \<Rightarrow> rat" where
  "spec_line_total fixture =
     (case selected_model fixture of None \<Rightarrow> 0 | Some m \<Rightarrow> unit_price m)
       * of_int (quantity fixture)"

definition spec_total :: "ExtendedFixture list \<Rightarrow> rat" where
  "spec_total fixturesList = sum_list (map spec_line_total fixturesList)"

section \<open>Cost aggregation in binary64 (Results.tsx, calculateTotalCost)\<close>

text \<open>
  A JavaScript number is an IEEE 754 binary64 value, and \<open>+\<close> and \<open>*\<close> round the exact
  result to the nearest such value, ties to even. This section computes the total as
  the engine does. A finite double is given by its exact value; the sign of zero is not
  kept (the running sum starts from \<open>+0\<close> and never becomes \<open>-0\<close>).
\<close>

datatype number = Finite rat | PlusInfinity | MinusInfinity | NaN

text \<open>The number of binary digits of \<open>n\<close>.\<close>

fun bit_length :: "nat \<Rightarrow> nat" where
  "bit_length n = (if n = 0 then 0 else Suc (bit_length (n div 2)))"

declare bit_length.simps [simp del]

text \<open>The binary exponent of a positive value: the \<open>e\<close> with \<open>2^e \<le> a < 2^(e+1)\<close>.\<close>

definition exponent_of :: "rat \<Rightarrow> int" where
  "exponent_of a =
     (let (p, q) = quotient_of a;
          d = int (bit_length (nat p)) - int (bit_length (nat q))
      in if 2 powi d \<le> a then d else d - 1)"

definition round_half_even :: "rat \<Rightarrow> int" where
  "round_half_even x =
     (let f = \<lfloor>x\<rfloor>; d = x - of_int f
      in if d < 1 / 2 then f else if 1 / 2 < d then f + 1 else if even f then f else f + 1)"

text \<open>
  The multiple of the unit in the last place nearest to a positive value: 53 significant
  bits, with the exponent held at \<open>-1022\<close> for subnormal values.
\<close>

definition nearest :: "rat \<Rightarrow> rat" where
  "nearest a =
     (let e = max (exponent_of a) (- 1022);
          ulp = 2 powi (e - 52)
      in of_int (round_half_even (a / ulp)) * ulp)"

text \<open>
  The double nearest to an exact value. It is what \<open>JSON.parse\<close> makes of a decimal the
  store sends, and what an arithmetic operation makes of its exact result; a magnitude
  that rounds to \<open>2^1024\<close> overflows to an infinity.
\<close>

definition binary64 :: "rat \<Rightarrow> number" where
  "binary64 x =
     (if x = 0 then Finite 0
      else
        let y = nearest \<bar>x\<bar>
        in if 2 powi 1024 \<le> y
           then (if x < 0 then MinusInfinity else PlusInfinity)
           else Finite (if x < 0 then - y else y))"

text \<open>\<open>x + y\<close>\<close>

fun add64 :: "number \<Rightarrow> number \<Rightarrow> number" where
  "add64 NaN y = NaN"
| "add64 x NaN = NaN"
| "add64 (Finite a) (Finite b) = binary64 (a + b)"
| "add64 PlusInfinity MinusInfinity = NaN"
| "add64 MinusInfinity PlusInfinity = NaN"
| "add64 PlusInfinity y = PlusInfinity"
| "add64 x PlusInfinity = PlusInfinity"
| "add64 MinusInfinity y = MinusInfinity"
| "add64 x MinusInfinity = MinusInfinity"

text \<open>\<open>x * y\<close>\<close>

fun mul64 :: "number \<Rightarrow> number \<Rightarrow> number" where
  "mul64 NaN y = NaN"
| "mul64 x NaN = NaN"
| "mul64 (Finite a) (Finite b) = binary64 (a * b)"
| "mul64 (Finite a) PlusInfinity = (if a = 0 then NaN else if 0 < a then PlusInfinity else MinusInfinity)"
| "mul64 (Finite a) MinusInfinity = (if a = 0 then NaN else if 0 < a then MinusInfinity else PlusInfinity)"
| "mul64 PlusInfinity (Finite b) = (if b = 0 then NaN else if 0 < b then PlusInfinity else MinusInfinity)"
| "mul64 MinusInfinity (Finite b) = (if b = 0 then NaN else if 0 < b then MinusInfinity else PlusInfinity)"
| "mul64 PlusInfinity PlusInfinity = PlusInfinity"
| "mul64 PlusInfinity MinusInfinity = MinusInfinity"
| "mul64 MinusInfinity PlusInfinity = MinusInfinity"
| "mul64 MinusInfinity MinusInfinity = PlusInfinity"

text \<open>\<open>x || 0\<close> on a possibly undefined number: \<open>undefined\<close>, \<open>0\<close> and \<open>NaN\<close> are falsy.\<close>

definition or_zero64 :: "number option \<Rightarrow> number" where
  "or_zero64 v =
     (case v of
        None \<Rightarrow> Finite 0
      | Some NaN \<Rightarrow> Finite 0
      | Some (Finite p) \<Rightarrow> if p = 0 then Finite 0 else Finite p
      | Some x \<Rightarrow> x)"

text \<open>
  \<open>fixture.selected_model?.unit_price\<close> and \<open>fixture.quantity\<close> as the engine holds
  them: the doubles nearest to the values of the store's columns.
\<close>

definition price64 :: "ExtendedFixture \<Rightarrow> number option" where
  "price64 fixture = map_option (\<lambda>m. binary64 (unit_price m)) (selected_model fixture)"

definition quantity64 :: "ExtendedFixture \<Rightarrow> number" where
  "quantity64 fixture = binary64 (of_int (quantity fixture))"

text \<open>The value \<open>reduce\<close> hands to \<open>setTotalCost\<close>, left to right from 0.\<close>

definition reduce_total64 :: "ExtendedFixture list \<Rightarrow> number" where
  "reduce_total64 fixturesList =
     foldl (\<lambda>sum fixture.
              let price = or_zero64 (price64 fixture)
              in add64 sum (mul64 price (quantity64 fixture)))
           (Finite 0) fixturesList"

text \<open>The product one round of the \<open>reduce\<close> adds.\<close>

definition line_total64 :: "ExtendedFixture \<Rightarrow> number" where
  "line_total64 fixture = mul64 (or_zero64 (price64 fixture)) (quantity64 fixture)"

text \<open>
  No operation of the \<open>reduce\<close> rounds: every price, quantity, product and partial sum,
  taken exactly from the running sum \<open>acc\<close> on, is a double as it stands.
\<close>

fun rounding_free :: "rat \<Rightarrow> ExtendedFixture list \<Rightarrow> bool" where
  "rounding_free acc [] = True"
| "rounding_free acc (fixture # rest) =
     (let p = (case selected_model fixture of None \<Rightarrow> 0 | Some m \<Rightarrow> unit_price m);
          q = of_int (quantity fixture)
      in binary64 p = Finite p \<and> binary64 q = Finite q
         \<and> binary64 (p * q) = Finite (p * q)
         \<and> binary64 (acc + p * q) = Finite (acc + p * q)
         \<and> rounding_free (acc + p * q) rest)"

section \<open>Selection state (Results.tsx)\<close>

text \<open>The body of the \<open>map\<close> in \<open>loadProjectData\<close>.\<close>

definition withRecommendations :: "FixtureModel list \<Rightarrow> ExtendedFixture \<Rightarrow> ExtendedFixture" where
  "withRecommendations modelsData fixture =
     (let currentType = map_option fixture_type (selected_model fixture);
          recs = take 3
                   (filter (\<lambda>model. Some (fixture_type model) = currentType
                                      \<and> Some (id_model model) \<noteq> selected_model_id fixture)
                           modelsData)
      in fixture\<lparr>recommendations := Some recs, showRecommendations := Some False\<rparr>)"

definition or_empty :: "'a list option \<Rightarrow> 'a list" where
  "or_empty v = (case v of None \<Rightarrow> [] | Some xs \<Rightarrow> xs)"

text \<open>
  \<open>loadProjectData\<close>: the three queries answer with \<open>projectResp\<close>, \<open>fixturesResp\<close> and
  \<open>modelsResp\<close>; a query is issued only when the ones before it did not fail. The
  \<open>catch\<close> block logs, the \<open>finally\<close> block clears \<open>loading\<close>.
\<close>

definition loadProjectData ::
  "string option \<Rightarrow> Project response \<Rightarrow> ExtendedFixture list response \<Rightarrow>
   FixtureModel list response \<Rightarrow> ResultsState \<Rightarrow> ResultsState" where
  "loadProjectData projectId projectResp fixturesResp modelsResp s =
     (let caught = (\<lambda>e t. t\<lparr>console := console t @ [ConsoleError ''Error loading project data:'' e]\<rparr>);
          s1 = s\<lparr>store_calls := store_calls s @ [SelectProject projectId]\<rparr>;
          s' =
            (case error projectResp of
               Some e \<Rightarrow> caught e s1
             | None \<Rightarrow>
                 let s2 = s1\<lparr>project := data projectResp,
                             store_calls := store_calls s1 @ [SelectFixtures projectId]\<rparr>
                 in (case error fixturesResp of
                       Some e \<Rightarrow> caught e s2
                     | None \<Rightarrow>
                         let s3 = s2\<lparr>store_calls := store_calls s2 @ [SelectModels]\<rparr>
                         in (case error modelsResp of
                               Some e \<Rightarrow> caught e s3
                             | None \<Rightarrow>
                                 let modelsData = or_empty (data modelsResp);
                                     s4 = s3\<lparr>allModels := modelsData\<rparr>;
                                     fixturesWithRecommendations =
                                       map (withRecommendations modelsData)
                                           (or_empty (data fixturesResp));
                                     s5 = s4\<lparr>fixtures := fixturesWithRecommendations\<rparr>
                                 in calculateTotalCost fixturesWithRecommendations s5)))
      in s'\<lparr>loading := False\<rparr>)"

text \<open>
  \<open>handleModelChange\<close>: \<open>updateError\<close> is the \<open>error\<close> field of the store's answer to
  the update.
\<close>

definition handleModelChange ::
  "string \<Rightarrow> string \<Rightarrow> PostgrestError option \<Rightarrow> ResultsState \<Rightarrow> ResultsState" where
  "handleModelChange fixtureId newModelId updateError s =
     (let s1 = s\<lparr>store_calls := store_calls s @ [UpdateFixture fixtureId newModelId]\<rparr>
      in case updateError of
           Some e \<Rightarrow> s1\<lparr>console := console s @ [ConsoleError ''Error updating fixture model:'' e]\<rparr>
         | None \<Rightarrow>
             let newModel = find (\<lambda>m. id_model m = newModelId) (allModels s);
                 updatedFixtures =
                   map (\<lambda>fixture.
                          if id_fixture fixture = fixtureId
                          then fixture\<lparr>selected_model_id := Some newModelId,
                                       selected_model := newModel\<rparr>
                          else fixture)
                       (fixtures s)
             in calculateTotalCost updatedFixtures (s1\<lparr>fixtures := updatedFixtures\<rparr>))"

text \<open>\<open>!fixture.showRecommendations\<close>: an absent flag is falsy.\<close>

definition js_not :: "bool option \<Rightarrow> bool" where
  "js_not v = (case v of None \<Rightarrow> True | Some b \<Rightarrow> \<not> b)"

definition toggleRecommendations :: "string \<Rightarrow> ResultsState \<Rightarrow> ResultsState" where
  "toggleRecommendations fixtureId s =
     s\<lparr>fixtures :=
         map (\<lambda>fixture.
                if id_fixture fixture = fixtureId
                then fixture\<lparr>showRecommendations := Some (js_not (showRecommendations fixture))\<rparr>
                else fixture)
             (fixtures s)\<rparr>"

text \<open>
  The states of a results session: the component mounts in \<open>initialState\<close>; the effect
  hook runs \<open>loadProjectData\<close>, and the user's clicks run the two handlers, each to
  completion before the next event.
\<close>

inductive reachable :: "ResultsState \<Rightarrow> bool" where
  reach_init: "reachable initialState"
| reach_load: "reachable s \<Longrightarrow> reachable (loadProjectData projectId projectResp fixturesResp modelsResp s)"
| reach_apply: "reachable s \<Longrightarrow> reachable (handleModelChange fixtureId newModelId updateError s)"
| reach_toggle: "reachable s \<Longrightarrow> reachable (toggleRecommendations fixtureId s)"

section \<open>The store's answer to the update (migration in src/unnamed/part_000)\<close>

text \<open>
  The two tables the results page reads. The migration declares
  \<open>fixtures.selected_model_id uuid REFERENCES fixture_models(id)\<close>: an update that
  gives a fixture row a model id with no row in \<open>fixture_models\<close> violates the foreign
  key and is rejected with SQLSTATE 23503, leaving the row as it was. An update whose
  filter matches no row changes nothing and reports no error. \<open>update_error\<close> is the
  \<open>error\<close> of the answer to
  \<open>from('fixtures').update({ selected_model_id: newModelId }).eq('id', fixtureId)\<close>
  as these constraints decide it; failures of the transport or of row level security
  can only add errors.
\<close>

record Store =
  fixture_models_rows :: "FixtureModel list"
  fixtures_rows :: "ExtendedFixture list"


section \<open>Export formatter (Results.tsx, exportToPDF)\<close>

text \<open>
  \<open>Number.prototype.toFixed(2)\<close> on an exact value: a negative number is rendered as
  \<open>-\<close> followed by its absolute value; \<open>n\<close> is the integer nearest to \<open>100 x\<close>, the
  larger one on a tie; its decimal digits are padded with zeros to three places and the
  point is put before the last two. Above \<open>10^21\<close> JavaScript switches to the
  exponential notation of the double, which is not rendered here: statements about
  \<open>toFixed2\<close> are made below that bound.
\<close>

definition digit_char :: "nat \<Rightarrow> char" where
  "digit_char d = ''0123456789'' ! d"

fun digits :: "nat \<Rightarrow> string" where
  "digits n = (if n < 10 then [digit_char n] else digits (n div 10) @ [digit_char (n mod 10)])"

declare digits.simps [simp del]

definition toFixed2 :: "rat \<Rightarrow> string" where
  "toFixed2 x =
     (let sign = (if x < 0 then ''-'' else []);
          x = (if x < 0 then - x else x);
          n = nat \<lfloor>x * 100 + 1 / 2\<rfloor>;
          m = digits n;
          k = length m;
          m = (if k \<le> 2 then replicate (3 - k) CHR ''0'' @ m else m);
          k = length m
      in sign @ take (k - 2) m @ ''.'' @ drop (k - 2) m)"

text \<open>\<open>Number.prototype.toString()\<close> on an integer.\<close>

definition int_toString :: "int \<Rightarrow> string" where
  "int_toString i = (if i < 0 then ''-'' @ digits (nat (- i)) else digits (nat i))"

text \<open>\<open>s || d\<close> on a possibly undefined string: \<open>undefined\<close> and the empty string are falsy.\<close>

definition str_or :: "string option \<Rightarrow> string \<Rightarrow> string" where
  "str_or v d = (case v of None \<Rightarrow> d | Some s \<Rightarrow> if s = [] then d else s)"

text \<open>
  The document \<open>exportToPDF\<close> builds: the lines written with \<open>doc.text\<close> (string and
  position, in call order), the head and body handed to \<open>autoTable\<close>, and the file name
  handed to \<open>doc.save\<close>. Font sizes and table styling are left out.
\<close>

record PdfDocument =
  texts :: "(string \<times> rat \<times> rat) list"
  table_head :: "string list list"
  table_body :: "string list list"
  saved_as :: string

text \<open>One element of \<open>tableData\<close>.\<close>

definition tableRow :: "ExtendedFixture \<Rightarrow> string list" where
  "tableRow fixture =
     [detected_symbol fixture,
      room_name fixture,
      str_or (map_option model_name (selected_model fixture)) ''N/A'',
      str_or (map_option manufacturer (selected_model fixture)) ''N/A'',
      int_toString (quantity fixture),
      ''$'' @ str_or (map_option (\<lambda>m. toFixed2 (unit_price m)) (selected_model fixture)) ''0.00'',
      ''$'' @ toFixed2 (or_zero (selected_unit_price fixture) * of_int (quantity fixture))]"

text \<open>
  \<open>exportToPDF\<close>: \<open>localeDate\<close> and \<open>time\<close> are what the two \<open>new Date()\<close> give,
  \<open>lastFinalY\<close> is the \<open>finalY\<close> the table plugin reports after drawing.
\<close>

definition exportToPDF :: "string \<Rightarrow> nat \<Rightarrow> rat \<Rightarrow> ResultsState \<Rightarrow> PdfDocument" where
  "exportToPDF localeDate time lastFinalY s =
     (let tableData = map tableRow (fixtures s);
          finalY = (if lastFinalY = 0 then 50 else lastFinalY)
      in \<lparr>texts =
            [(''Lighting Analysis Quotation'', 14, 20),
             (''Project: '' @ str_or (map_option name (project s)) ''N/A'', 14, 30),
             (''Date: '' @ localeDate, 14, 36),
             (''Total Cost: $'' @ toFixed2 (totalCost s), 14, 42),
             (''Total Project Cost: $'' @ toFixed2 (totalCost s), 14, finalY + 10)],
          table_head =
            [[''Symbol'', ''Room'', ''Model'', ''Manufacturer'', ''Qty'', ''Unit Price'', ''Total'']],
          table_body = tableData,
          saved_as = str_or (map_option name (project s)) ''quotation'' @ ''_'' @ digits time @ ''.pdf''\<rparr>)"

text \<open>
  The specification's money format \<open>^\$\d+\.\d{2}$\<close>: a dollar sign, one or more
  digits, a point, two digits, and nothing else.
\<close>

definition is_digit :: "char \<Rightarrow> bool" where
  "is_digit c = (c \<in> set ''0123456789'')"

definition money_format :: "string \<Rightarrow> bool" where
  "money_format s =
     (case s of
        [] \<Rightarrow> False
      | c # rest \<Rightarrow>
          c = CHR ''$'' \<and> 4 \<le> length rest
          \<and> list_all is_digit (take (length rest - 3) rest)
          \<and> rest ! (length rest - 3) = CHR ''.''
          \<and> list_all is_digit (drop (length rest - 2) rest))"

section \<open>Upload (src/src/pages/Upload.tsx, handleSubmit)\<close>

record UploadFile =
  file_name_of :: string
  file_size :: nat

record UploadState =
  file_state :: "UploadFile option"
  projectName :: string
  uploading :: bool
  uploadProgress :: nat
  error_text :: string
  success :: bool

text \<open>The object literals handed to the two \<open>insert\<close> calls.\<close>

record ProjectInsert =
  new_name :: string
  new_file_name :: string
  new_file_type :: string
  new_total_fixtures :: int
  new_total_cost :: rat
  new_average_lux :: int
  new_user_id :: string

text \<open>
  \<open>new_room_name\<close> and \<open>new_detected_symbol\<close> are read from an array by index and are
  \<open>undefined\<close> (\<open>None\<close>) when the index is out of range.
\<close>

record FixtureInsert =
  new_project_id :: string
  new_room_name :: "string option"
  new_detected_symbol :: "string option"
  new_selected_model_id :: string
  new_quantity :: int
  new_lux_level :: int

datatype upload_error = StoreError PostgrestError | TypeError

datatype upload_effect =
    InsertProject ProjectInsert
  | SelectModelsLimit nat
  | InsertFixtures "FixtureInsert list"
  | NavigateLater string string
  | UploadConsoleError string upload_error

text \<open>\<open>xs[i]\<close> in JavaScript: \<open>undefined\<close> out of range.\<close>

definition js_index :: "'a list \<Rightarrow> int \<Rightarrow> 'a option" where
  "js_index xs i = (if 0 \<le> i \<and> i < int (length xs) then Some (xs ! nat i) else None)"

text \<open>\<open>Math.floor(Math.random() * k)\<close>, for the value \<open>r\<close> that \<open>Math.random()\<close> returned.\<close>

definition random_below :: "rat \<Rightarrow> int \<Rightarrow> int" where
  "random_below r k = \<lfloor>r * of_int k\<rfloor>"

definition toLowerCase_char :: "char \<Rightarrow> char" where
  "toLowerCase_char c =
     (let n = (of_char c :: nat) in if 65 \<le> n \<and> n \<le> 90 then char_of (n + 32) else c)"

text \<open>
  \<open>file.name.split('.').pop()?.toLowerCase() || ''\<close>: the part of the name after its
  last point (the whole name when it has none), in lower case (ASCII letters).
\<close>

definition fileType_of :: "string \<Rightarrow> string" where
  "fileType_of fname = map toLowerCase_char (rev (takeWhile (\<lambda>c. c \<noteq> CHR ''.'') (rev fname)))"

text \<open>\<open>!projectName.trim()\<close>: the name is empty once white space is trimmed (ASCII white space).\<close>

definition blank :: "string \<Rightarrow> bool" where
  "blank str = list_all (\<lambda>c. c \<in> set [CHR '' '', CHR 0x09, CHR 0x0A, CHR 0x0B, CHR 0x0C, CHR 0x0D]) str"

text \<open>\<open>simulateProcessing\<close>: the progress bar, from 0 to 100 in steps of 10.\<close>

function simulateProcessing_from :: "nat \<Rightarrow> UploadState \<Rightarrow> UploadState" where
  "simulateProcessing_from i s =
     (if i \<le> 100 then simulateProcessing_from (i + 10) (s\<lparr>uploadProgress := i\<rparr>) else s)"
  by pat_completeness auto
termination
  by (relation "measure (\<lambda>(i, s). 110 - i)") auto

declare simulateProcessing_from.simps [simp del]

definition simulateProcessing :: "UploadState \<Rightarrow> UploadState" where
  "simulateProcessing s = simulateProcessing_from 0 s"

definition rooms :: "string list" where
  "rooms = [''Office 1'', ''Conference Room'', ''Lobby'', ''Hallway'', ''Workshop'']"

definition symbols :: "string list" where
  "symbols = [''LIGHT_01'', ''LIGHT_02'', ''LIGHT_03'', ''DOWNLIGHT'', ''PANEL_600'']"

text \<open>
  The \<open>for\<close> loop that fills \<open>fixturesData\<close>. \<open>random\<close> gives the value of each call of
  \<open>Math.random()\<close> by its number in call order: calls 0 and 1 are made before the loop,
  and round \<open>i\<close> makes the five calls from \<open>2 + 5 i\<close> on. Reading \<open>.id\<close> of an undefined
  \<open>randomModel\<close> throws a TypeError.
\<close>

function fixturesData_loop ::
  "(nat \<Rightarrow> rat) \<Rightarrow> string \<Rightarrow> FixtureModel list \<Rightarrow> int \<Rightarrow> nat \<Rightarrow> FixtureInsert list \<Rightarrow>
   upload_error + FixtureInsert list" where
  "fixturesData_loop random projectDataId models totalFixtures i fixturesData =
     (if int i < min totalFixtures 15
      then (case js_index models (random_below (random (2 + 5 * i)) (int (length models))) of
              None \<Rightarrow> Inl TypeError
            | Some randomModel \<Rightarrow>
                fixturesData_loop random projectDataId models totalFixtures (i + 1)
                  (fixturesData @
                    [\<lparr>new_project_id = projectDataId,
                      new_room_name = js_index rooms (random_below (random (2 + 5 * i + 1)) (int (length rooms))),
                      new_detected_symbol = js_index symbols (random_below (random (2 + 5 * i + 2)) (int (length symbols))),
                      new_selected_model_id = id_model randomModel,
                      new_quantity = random_below (random (2 + 5 * i + 3)) 5 + 1,
                      new_lux_level = random_below (random (2 + 5 * i + 4)) 200 + 300\<rparr>]))
      else Inr fixturesData)"
  by pat_completeness auto
termination
  by (relation "measure (\<lambda>(random, projectDataId, models, totalFixtures, i, fixturesData). 15 - i)") auto

declare fixturesData_loop.simps [simp del]

text \<open>
  \<open>handleSubmit\<close>: \<open>projectResp\<close>, \<open>modelsResp\<close> and \<open>fixturesError\<close> are the store's
  answers to the project insert, the catalog query and the fixture insert. The result
  is the component state with the effects in the order they happen.
\<close>

definition handleSubmit ::
  "(nat \<Rightarrow> rat) \<Rightarrow> Project response \<Rightarrow> FixtureModel list response \<Rightarrow> PostgrestError option \<Rightarrow>
   UploadState \<Rightarrow> UploadState \<times> upload_effect list" where
  "handleSubmit random projectResp modelsResp fixturesError s0 =
     (let s = s0\<lparr>error_text := [], success := False\<rparr>
      in case file_state s of
           None \<Rightarrow> (s\<lparr>error_text := ''Please select a file to upload''\<rparr>, [])
         | Some f \<Rightarrow>
             if blank (projectName s)
             then (s\<lparr>error_text := ''Please enter a project name''\<rparr>, [])
             else
               let s = simulateProcessing (s\<lparr>uploading := True, uploadProgress := 0\<rparr>);
                   caught = (\<lambda>err t effects.
                     (t\<lparr>error_text := ''Failed to upload and process file. Please try again.'',
                        uploading := False\<rparr>,
                      effects @ [UploadConsoleError ''Upload error:'' err]));
                   fileType = fileType_of (file_name_of f);
                   totalFixtures = random_below (random 0) 50 + 10;
                   avgCostPerFixture = 355 / 10;
                   totalCost = of_int totalFixtures * avgCostPerFixture;
                   avgLux = random_below (random 1) 200 + 300;
                   effects =
                     [InsertProject
                        \<lparr>new_name = projectName s,
                         new_file_name = file_name_of f,
                         new_file_type = fileType,
                         new_total_fixtures = totalFixtures,
                         new_total_cost = totalCost,
                         new_average_lux = avgLux,
                         new_user_id = ''00000000-0000-0000-0000-000000000000''\<rparr>]
               in case error projectResp of
                    Some e \<Rightarrow> caught (StoreError e) s effects
                  | None \<Rightarrow>
                      let effects = effects @ [SelectModelsLimit 5]
                      in case error modelsResp of
                           Some e \<Rightarrow> caught (StoreError e) s effects
                         | None \<Rightarrow>
                             (case (data projectResp, data modelsResp) of
                                (Some projectData, Some models) \<Rightarrow>
                                  (case fixturesData_loop random (id_project projectData) models
                                          totalFixtures 0 [] of
                                     Inl err \<Rightarrow> caught err s effects
                                   | Inr fixturesData \<Rightarrow>
                                       let effects = effects @ [InsertFixtures fixturesData]
                                       in case fixturesError of
                                            Some e \<Rightarrow> caught (StoreError e) s effects
                                          | None \<Rightarrow>
                                              (s\<lparr>success := True, uploading := False\<rparr>,
                                               effects @ [NavigateLater ''results'' (id_project projectData)]))
                              | _ \<Rightarrow> (s\<lparr>uploading := False\<rparr>, effects)))"

section \<open>Sample data\<close>

text \<open>
  A small catalog and project on which the operations are run: two models of type
  ``LED Panel'' and one of type ``Downlight'', and two fixture rows as the store returns
  them, the first with model A and quantity 2, the second with model B and quantity 1.
\<close>

definition sample_model :: "string \<Rightarrow> string \<Rightarrow> rat \<Rightarrow> FixtureModel" where
  "sample_model mid ftype price =
     \<lparr>id_model = mid, model_name = ''Model '' @ mid, manufacturer = ''Acme'',
      fixture_type = ftype, wattage = 40, lumens = 4000, unit_price = price,
      description = [], created_at_model = ''2024-01-01''\<rparr>"

definition sample_row :: "string \<Rightarrow> FixtureModel option \<Rightarrow> int \<Rightarrow> ExtendedFixture" where
  "sample_row fid m q =
     \<lparr>id_fixture = fid, project_id = ''p1'', room_name = ''Lobby'',
      detected_symbol = ''LIGHT_01'', selected_model_id = map_option id_model m,
      quantity = q, lux_level = 300, created_at_fixture = ''2024-01-01'',
      selected_model = m, recommendations = None, showRecommendations = None\<rparr>"

definition sample_catalog :: "FixtureModel list" where
  "sample_catalog =
     [sample_model ''A'' ''LED Panel'' (4599 / 100),
      sample_model ''B'' ''LED Panel'' (1299 / 100),
      sample_model ''C'' ''Downlight'' 20]"

definition sample_rows :: "ExtendedFixture list" where
  "sample_rows =
     [sample_row ''f1'' (Some (sample_model ''A'' ''LED Panel'' (4599 / 100))) 2,
      sample_row ''f2'' (Some (sample_model ''B'' ''LED Panel'' (1299 / 100))) 1]"

definition sample_loaded :: ResultsState where
  "sample_loaded =
     loadProjectData (Some ''p1'')
       \<lparr>data = None, error = None\<rparr>
       \<lparr>data = Some sample_rows, error = None\<rparr>
       \<lparr>data = Some sample_catalog, error = None\<rparr>
       initialState"

text \<open>A stored project and an upload form filled in with a file and a name.\<close>

definition sample_project :: Project where
  "sample_project =
     \<lparr>id_project = ''p1'', name = ''Plant'', file_name = ''plant.dwg'', file_type = ''dwg'',
      upload_date = ''2024-01-01'', total_fixtures = 35, total_cost = 2485 / 2,
      average_lux = 400, user_id = ''00000000-0000-0000-0000-000000000000'',
      created_at_project = ''2024-01-01''\<rparr>"

definition sample_upload :: UploadState where
  "sample_upload =
     \<lparr>file_state = Some \<lparr>file_name_of = ''plant.dwg'', file_size = 1024\<rparr>,
      projectName = ''Plant'', uploading = False, uploadProgress = 0, error_text = [],
      success = False\<rparr>"





section \<open>Cost aggregation: results\<close>

lemma or_zero_selected_unit_price:
  "or_zero (selected_unit_price fixture) * of_int (quantity fixture) = spec_line_total fixture"
  by (simp add: or_zero_def selected_unit_price_def spec_line_total_def split: option.splits)

lemma foldl_line_totals:
  "foldl (\<lambda>sum fixture.
            let price = or_zero (selected_unit_price fixture)
            in sum + price * of_int (quantity fixture)) acc fixturesList
   = acc + sum_list (map spec_line_total fixturesList)"
  by (induction fixturesList arbitrary: acc)
     (simp_all add: Let_def or_zero_selected_unit_price add.assoc)

lemma reduce_total_spec: "reduce_total fixturesList = spec_total fixturesList"
  unfolding reduce_total_def spec_total_def
  using foldl_line_totals [of 0 fixturesList] by simp

section \<open>Cost aggregation in binary64: results\<close>

lemma bit_length_bounds:
  "0 < n \<Longrightarrow> 2 ^ (bit_length n - 1) \<le> n \<and> n < 2 ^ bit_length n"
proof (induction n rule: bit_length.induct)
  case (1 n)
  show ?case
  proof (cases "n div 2 = 0")
    case True
    with "1.prems" have "n = 1" by presburger
    then show ?thesis
      by (simp add: bit_length.simps)
  next
    case False
    then have pos: "0 < n div 2" by simp
    define k where "k = bit_length (n div 2)"
    from "1.IH" [OF _ pos] "1.prems"
    have ih: "2 ^ (k - 1) \<le> n div 2" "n div 2 < 2 ^ k"
      by (simp_all add: k_def)
    have k: "0 < k"
      using pos unfolding k_def by (subst bit_length.simps) simp
    have bl: "bit_length n = Suc k"
      using "1.prems" unfolding k_def by (subst bit_length.simps) simp
    have "2 * 2 ^ (k - 1) \<le> n"
      using ih(1) by presburger
    moreover have "2 * 2 ^ (k - 1) = (2::nat) ^ k"
      using k by (cases k) simp_all
    moreover have "n < 2 * 2 ^ k"
      using ih(2) by presburger
    ultimately show ?thesis
      by (simp add: bl)
  qed
qed

lemma exponent_of_bounds:
  assumes "0 < a"
  shows "2 powi (exponent_of a) \<le> a \<and> a < 2 powi (exponent_of a + 1)"
proof -
  obtain p q where pq: "quotient_of a = (p, q)" by (cases "quotient_of a")
  then have a: "a = of_int p / of_int q" and q: "0 < q"
    by (simp_all add: quotient_of_div quotient_of_denom_pos)
  from assms a q have p: "0 < p"
    by (simp add: zero_less_divide_iff)
  define kp where "kp = bit_length (nat p)"
  define kq where "kq = bit_length (nat q)"
  define d where "d = int kp - int kq"
  from bit_length_bounds [of "nat p"] p
  have bp: "2 ^ (kp - 1) \<le> nat p" "nat p < 2 ^ kp"
    by (simp_all add: kp_def)
  from bit_length_bounds [of "nat q"] q
  have bq: "2 ^ (kq - 1) \<le> nat q" "nat q < 2 ^ kq"
    by (simp_all add: kq_def)
  have kp: "0 < kp" using p unfolding kp_def by (subst bit_length.simps) simp
  have kq: "0 < kq" using q unfolding kq_def by (subst bit_length.simps) simp
  have P: "(2::rat) ^ (kp - 1) \<le> of_int p" "(of_int p :: rat) < 2 ^ kp"
  proof -
    have "(of_nat (2 ^ (kp - 1)) :: rat) \<le> of_nat (nat p)"
      using bp(1) by (simp only: of_nat_le_iff)
    then show "(2::rat) ^ (kp - 1) \<le> of_int p" using p by simp
    have "(of_nat (nat p) :: rat) < of_nat (2 ^ kp)"
      using bp(2) by (simp only: of_nat_less_iff)
    then show "(of_int p :: rat) < 2 ^ kp" using p by simp
  qed
  have Q: "(2::rat) ^ (kq - 1) \<le> of_int q" "(of_int q :: rat) < 2 ^ kq"
  proof -
    have "(of_nat (2 ^ (kq - 1)) :: rat) \<le> of_nat (nat q)"
      using bq(1) by (simp only: of_nat_le_iff)
    then show "(2::rat) ^ (kq - 1) \<le> of_int q" using q by simp
    have "(of_nat (nat q) :: rat) < of_nat (2 ^ kq)"
      using bq(2) by (simp only: of_nat_less_iff)
    then show "(of_int q :: rat) < 2 ^ kq" using q by simp
  qed
  have qpos: "(0::rat) < of_int q" using q by simp
  have upper: "a < 2 powi (d + 1)"
  proof -
    have "a * of_int q = of_int p" using a q by simp
    also have "\<dots> < 2 ^ kp" by (rule P(2))
    also have "(2::rat) ^ kp = 2 powi (d + 1) * 2 ^ (kq - 1)"
    proof -
      have "int kp = (d + 1) + int (kq - 1)" using kq by (simp add: d_def)
      then have "(2::rat) powi int kp = 2 powi (d + 1) * 2 powi int (kq - 1)"
        by (simp add: power_int_add)
      then show ?thesis by simp
    qed
    also have "\<dots> \<le> 2 powi (d + 1) * of_int q"
      using Q(1) by (intro mult_left_mono) simp_all
    finally show ?thesis using qpos by simp
  qed
  have lower: "2 powi (d - 1) < a"
  proof -
    have "2 powi (d - 1) * of_int q < 2 powi (d - 1) * (2::rat) ^ kq"
      using Q(2) by (intro mult_strict_left_mono) simp_all
    also have "2 powi (d - 1) * (2::rat) ^ kq = 2 ^ (kp - 1)"
    proof -
      have "int (kp - 1) = (d - 1) + int kq" using kp by (simp add: d_def)
      then have "(2::rat) powi int (kp - 1) = 2 powi (d - 1) * 2 powi int kq"
        by (simp add: power_int_add)
      then show ?thesis by simp
    qed
    also have "\<dots> \<le> of_int p" by (rule P(1))
    also have "\<dots> = a * of_int q" using a q by simp
    finally show ?thesis using qpos by simp
  qed
  have e: "exponent_of a = (if 2 powi d \<le> a then d else d - 1)"
    by (simp add: exponent_of_def pq Let_def d_def kp_def kq_def)
  show ?thesis
  proof (cases "2 powi d \<le> a")
    case True
    with e upper show ?thesis by simp
  next
    case False
    with e lower show ?thesis by simp
  qed
qed

lemma two_powi_less_D: "(2::rat) powi m < 2 powi n \<Longrightarrow> m < n"
proof (rule ccontr)
  assume less: "(2::rat) powi m < 2 powi n" and "\<not> m < n"
  then have "n \<le> m" by simp
  then have "(2::rat) powi n \<le> 2 powi m"
    by (rule power_int_increasing) simp
  with less show False by simp
qed

lemma exponent_of_unique:
  assumes "2 powi e \<le> a" and "a < 2 powi (e + 1)"
  shows "exponent_of a = e"
proof -
  have pos: "0 < a"
  proof -
    have "(0::rat) < 2 powi e" by (rule zero_less_power_int) simp
    with assms(1) show ?thesis by linarith
  qed
  from exponent_of_bounds [OF pos]
  have b: "2 powi (exponent_of a) \<le> a" "a < 2 powi (exponent_of a + 1)"
    by simp_all
  have "(2::rat) powi e < 2 powi (exponent_of a + 1)"
    using assms(1) b(2) by simp
  then have 1: "e < exponent_of a + 1"
    by (rule two_powi_less_D)
  have "(2::rat) powi (exponent_of a) < 2 powi (e + 1)"
    using assms(2) b(1) by simp
  then have 2: "exponent_of a < e + 1"
    by (rule two_powi_less_D)
  from 1 2 show ?thesis by simp
qed


lemma round_half_even_of_int [simp]: "round_half_even (of_int n) = n"
  by (simp add: round_half_even_def)

lemma round_half_even_near:
  assumes "\<bar>x - of_int n\<bar> < 1 / 2"
  shows "round_half_even x = n"
proof (cases "of_int n \<le> x")
  case True
  with assms have "x < of_int n + 1 / 2" by linarith
  with True have f: "\<lfloor>x\<rfloor> = n" by (intro floor_unique) linarith+
  with True \<open>x < of_int n + 1 / 2\<close> show ?thesis
    by (simp add: round_half_even_def Let_def)
next
  case False
  with assms have lo: "of_int n - 1 / 2 < x" and hi: "x < of_int n" by linarith+
  then have f: "\<lfloor>x\<rfloor> = n - 1" by (intro floor_unique) simp_all
  with lo hi show ?thesis
    by (simp add: round_half_even_def Let_def)
qed

lemma round_half_even_range:
  "\<lfloor>x\<rfloor> \<le> round_half_even x \<and> round_half_even x \<le> \<lfloor>x\<rfloor> + 1"
  by (simp add: round_half_even_def Let_def)

lemma round_half_even_le:
  assumes "x \<le> of_int m"
  shows "round_half_even x \<le> m"
proof (cases "x = of_int m")
  case True
  then show ?thesis by simp
next
  case False
  with assms have "x < of_int m" by simp
  then have "\<lfloor>x\<rfloor> < m" by (simp add: floor_less_iff)
  with round_half_even_range [of x] show ?thesis by linarith
qed

lemma round_half_even_nonneg: "0 \<le> x \<Longrightarrow> 0 \<le> round_half_even x"
proof -
  assume "0 \<le> x"
  then have "0 \<le> \<lfloor>x\<rfloor>" by simp
  with round_half_even_range [of x] show ?thesis by linarith
qed

lemma nearest_representable:
  assumes "0 < n" and "n < 2 ^ 53" and "- 1074 \<le> k"
  shows "nearest (of_int n * 2 powi k) = of_int n * 2 powi k"
proof -
  define x :: rat where "x = of_int n * 2 powi k"
  have pos: "0 < x"
    unfolding x_def using assms(1) by (intro mult_pos_pos zero_less_power_int) simp_all
  define e where "e = exponent_of x"
  from exponent_of_bounds [OF pos] have b: "2 powi e \<le> x" "x < 2 powi (e + 1)"
    by (simp_all add: e_def)
  have "x < 2 ^ 53 * 2 powi k"
  proof -
    have "(of_int n :: rat) < of_int (2 ^ 53)" using assms(2) by (simp only: of_int_less_iff)
    then have "(of_int n :: rat) < 2 ^ 53" by simp
    then show ?thesis
      unfolding x_def by (intro mult_strict_right_mono zero_less_power_int) simp_all
  qed
  also have "(2::rat) ^ 53 * 2 powi k = 2 powi (53 + k)"
    by (simp add: power_int_add)
  finally have "(2::rat) powi e < 2 powi (53 + k)" using b(1) by simp
  then have "e < 53 + k" by (rule two_powi_less_D)
  define u where "u = max e (- 1022) - 52"
  have uk: "u \<le> k" using \<open>e < 53 + k\<close> assms(3) by (simp add: u_def)
  have "x / 2 powi u = of_int n * 2 powi (k - u)"
    by (simp add: x_def power_int_diff)
  also have "(2::rat) powi (k - u) = 2 ^ nat (k - u)"
    using uk by (simp add: power_int_nonneg_exp)
  also have "of_int n * (2::rat) ^ nat (k - u) = of_int (n * 2 ^ nat (k - u))"
    by simp
  finally have "round_half_even (x / 2 powi u) = n * 2 ^ nat (k - u)"
    by (simp only: round_half_even_of_int)
  then have "of_int (round_half_even (x / 2 powi u)) * 2 powi u
      = (of_int n :: rat) * (2 ^ nat (k - u) * 2 powi u)"
    by simp
  also have "(2::rat) ^ nat (k - u) * 2 powi u = 2 powi k"
  proof -
    have "(2::rat) powi (k - u) * 2 powi u = 2 powi k"
      by (simp flip: power_int_add)
    then show ?thesis using uk by (simp add: power_int_nonneg_exp)
  qed
  finally show ?thesis
    by (simp add: nearest_def Let_def x_def [symmetric] e_def [symmetric] u_def [symmetric])
qed

lemma nearest_idem:
  assumes "0 < a"
  shows "nearest a = 0 \<or> (0 < nearest a \<and> nearest (nearest a) = nearest a)"
proof -
  define e where "e = exponent_of a"
  define u where "u = max e (- 1022) - 52"
  define r where "r = round_half_even (a / 2 powi u)"
  have n: "nearest a = of_int r * 2 powi u"
    by (simp add: nearest_def Let_def e_def u_def r_def)
  from exponent_of_bounds [OF assms] have "a < 2 powi (e + 1)"
    by (simp add: e_def)
  also have "(2::rat) powi (e + 1) \<le> 2 powi (u + 53)"
    by (rule power_int_increasing) (simp_all add: u_def)
  also have "(2::rat) powi (u + 53) = 2 powi u * 2 ^ 53"
    by (simp add: power_int_add)
  finally have "a / 2 powi u < 2 ^ 53"
    by (simp add: pos_divide_less_eq zero_less_power_int mult.commute)
  then have "a / 2 powi u \<le> of_int (2 ^ 53)" by simp
  then have hi: "r \<le> 2 ^ 53" unfolding r_def by (rule round_half_even_le)
  have "0 \<le> a / 2 powi u" using assms by (simp add: zero_less_power_int)
  then have lo: "0 \<le> r" unfolding r_def by (rule round_half_even_nonneg)
  have u: "- 1074 \<le> u" by (simp add: u_def)
  consider "r = 0" | "0 < r" "r < 2 ^ 53" | "r = 2 ^ 53" using lo hi by linarith
  then show ?thesis
  proof cases
    case 1
    then show ?thesis by (simp add: n)
  next
    case 2
    then have "0 < nearest a"
      unfolding n by (intro mult_pos_pos zero_less_power_int) simp_all
    with nearest_representable [OF 2 u] show ?thesis by (simp add: n)
  next
    case 3
    have eq: "nearest a = of_int (2 ^ 52) * 2 powi (u + 1)"
      by (simp add: n 3 power_int_add)
    have "nearest (of_int (2 ^ 52) * 2 powi (u + 1)) = of_int (2 ^ 52) * 2 powi (u + 1)"
      using u by (intro nearest_representable) simp_all
    moreover have "(0::rat) < of_int (2 ^ 52) * 2 powi (u + 1)"
      by (intro mult_pos_pos zero_less_power_int) simp_all
    ultimately show ?thesis by (simp only: eq) simp
  qed
qed

lemma binary64_idem:
  assumes "binary64 x = Finite y"
  shows "binary64 y = Finite y"
proof (cases "x = 0")
  case True
  with assms show ?thesis by (simp add: binary64_def)
next
  case False
  then have pos: "0 < \<bar>x\<bar>" by simp
  define m where "m = nearest \<bar>x\<bar>"
  from assms False have small: "\<not> 2 powi 1024 \<le> m" and y: "y = (if x < 0 then - m else m)"
    by (simp_all add: binary64_def Let_def m_def split: if_splits)
  from nearest_idem [OF pos] consider "m = 0" | "0 < m" "nearest m = m"
    by (auto simp add: m_def)
  then show ?thesis
  proof cases
    case 1
    with y show ?thesis by (simp add: binary64_def)
  next
    case 2
    with y small show ?thesis
      by (simp add: binary64_def Let_def)
  qed
qed

lemma nearest_near:
  assumes "2 powi e \<le> a" and "a < 2 powi (e + 1)" and "- 1022 \<le> e"
    and "\<bar>a / 2 powi (e - 52) - of_int n\<bar> < 1 / 2"
  shows "nearest a = of_int n * 2 powi (e - 52)"
proof -
  have "exponent_of a = e" using assms(1,2) by (rule exponent_of_unique)
  moreover have "max e (- 1022) = e" using assms(3) by simp
  ultimately show ?thesis
    using round_half_even_near [OF assms(4)] by (simp add: nearest_def Let_def)
qed

lemma binary64_zero [simp]: "binary64 0 = Finite 0"
  by (simp add: binary64_def)

lemma binary64_dyadic:
  assumes "0 < n" and "n < 2 ^ 53" and "- 1074 \<le> k" and "of_int n * 2 powi k < (2::rat) powi 1024"
  shows "binary64 (of_int n * 2 powi k) = Finite (of_int n * 2 powi k)"
proof -
  have pos: "(0::rat) < of_int n * 2 powi k"
    using assms(1) by (intro mult_pos_pos zero_less_power_int) simp_all
  with nearest_representable [OF assms(1-3)] assms(4) show ?thesis
    by (simp add: binary64_def Let_def abs_of_pos)
qed

lemma binary64_near:
  assumes "2 powi e \<le> a" and "a < 2 powi (e + 1)" and "- 1022 \<le> e"
    and "\<bar>a / 2 powi (e - 52) - of_int n\<bar> < 1 / 2"
    and "of_int n * 2 powi (e - 52) < (2::rat) powi 1024"
  shows "binary64 a = Finite (of_int n * 2 powi (e - 52))"
proof -
  have "(0::rat) < 2 powi e" by (rule zero_less_power_int) simp
  with assms(1) have pos: "0 < a" by linarith
  with nearest_near [OF assms(1-4)] assms(5) show ?thesis
    by (simp add: binary64_def Let_def abs_of_pos)
qed


lemma reduce_total64_Nil: "reduce_total64 [] = Finite 0"
  by (simp add: reduce_total64_def)

lemma reduce_total64_snoc:
  "reduce_total64 (fixturesList @ [fixture])
   = add64 (reduce_total64 fixturesList) (line_total64 fixture)"
  by (simp add: reduce_total64_def line_total64_def Let_def)

lemma reduce_total64_append:
  "reduce_total64 (front @ others)
   = foldl (\<lambda>sum fixture. add64 sum (line_total64 fixture)) (reduce_total64 front) others"
  by (simp add: reduce_total64_def line_total64_def Let_def)

lemma add64_is_double:
  "case add64 x y of Finite r \<Rightarrow> binary64 r = Finite r | _ \<Rightarrow> True"
proof (cases "add64 x y")
  case (Finite r)
  then obtain a b where "x = Finite a" "y = Finite b"
    by (cases x; cases y) simp_all
  with Finite have "binary64 (a + b) = Finite r" by simp
  then have "binary64 r = Finite r" by (rule binary64_idem)
  with Finite show ?thesis by simp
qed simp_all

lemma reduce_total64_is_double:
  "case reduce_total64 fixturesList of Finite r \<Rightarrow> binary64 r = Finite r | _ \<Rightarrow> True"
proof (induction fixturesList rule: rev_induct)
  case Nil
  show ?case by (simp add: reduce_total64_Nil)
next
  case (snoc fixture fixturesList)
  show ?case unfolding reduce_total64_snoc by (rule add64_is_double)
qed

lemma add64_zero_right:
  "(case x of Finite r \<Rightarrow> binary64 r = Finite r | _ \<Rightarrow> True) \<Longrightarrow> add64 x (Finite 0) = x"
  by (cases x) simp_all

lemma line_total64_unresolved:
  "selected_model fixture = None \<Longrightarrow> quantity64 fixture = Finite q \<Longrightarrow> line_total64 fixture = Finite 0"
  by (simp add: line_total64_def price64_def or_zero64_def)

lemma reduce_total64_skip_unresolved:
  assumes "selected_model fixture = None" and "quantity64 fixture = Finite q"
  shows "reduce_total64 (front @ [fixture] @ others) = reduce_total64 (front @ others)"
proof -
  have "reduce_total64 (front @ [fixture]) = reduce_total64 front"
    unfolding reduce_total64_snoc line_total64_unresolved [OF assms]
    by (rule add64_zero_right) (rule reduce_total64_is_double)
  then show ?thesis
    using reduce_total64_append [of "front @ [fixture]" others] reduce_total64_append [of front others]
    by simp
qed

lemma foldl_rounding_free:
  "rounding_free acc fixturesList \<Longrightarrow>
   foldl (\<lambda>sum fixture. add64 sum (line_total64 fixture)) (Finite acc) fixturesList
   = Finite (acc + spec_total fixturesList)"
proof (induction fixturesList arbitrary: acc)
  case Nil
  show ?case by (simp add: spec_total_def)
next
  case (Cons fixture rest)
  define p where "p = (case selected_model fixture of None \<Rightarrow> 0 | Some m \<Rightarrow> unit_price m)"
  define q :: rat where "q = of_int (quantity fixture)"
  from Cons.prems have r: "binary64 p = Finite p" "binary64 q = Finite q"
    "binary64 (p * q) = Finite (p * q)" "binary64 (acc + p * q) = Finite (acc + p * q)"
    "rounding_free (acc + p * q) rest"
    by (simp_all add: Let_def p_def q_def)
  have "or_zero64 (price64 fixture) = Finite p"
    using r(1) by (cases "selected_model fixture") (simp_all add: price64_def or_zero64_def p_def)
  then have "line_total64 fixture = Finite (p * q)"
    using r(2,3) by (simp add: line_total64_def quantity64_def q_def)
  then have "add64 (Finite acc) (line_total64 fixture) = Finite (acc + p * q)"
    using r(4) by simp
  moreover have "spec_line_total fixture = p * q"
    by (simp add: spec_line_total_def p_def q_def)
  ultimately show ?case
    using Cons.IH [OF r(5)] by (simp add: spec_total_def add.assoc)
qed

lemma reduce_total64_exact:
  "rounding_free 0 fixturesList \<Longrightarrow> reduce_total64 fixturesList = Finite (spec_total fixturesList)"
  using foldl_rounding_free [of 0 fixturesList] reduce_total64_append [of "[]" fixturesList]
  by (simp add: reduce_total64_Nil)

lemma binary64_4599: "binary64 (4599 / 100) = Finite (6472517089461535 / 140737488355328)"
  using binary64_near [of 5 "4599 / 100" 6472517089461535] by simp

lemma binary64_1299: "binary64 (1299 / 100) = Finite (7312719894942843 / 562949953421312)"
  using binary64_near [of 3 "1299 / 100" 7312719894942843] by simp

lemma binary64_4250: "binary64 (85 / 2) = Finite (85 / 2)"
  using binary64_dyadic [of 85 "- 1"] by simp

lemma binary64_small_int: "0 < n \<Longrightarrow> n < 2 ^ 53 \<Longrightarrow> binary64 (of_int n) = Finite (of_int n)"
  using binary64_dyadic [of n 0]
  by simp


lemma binary64_22995: "binary64 (4599 / 20) = Finite (4045323180913459 / 17592186044416)"
  using binary64_near [of 7 "4599 / 20" 8090646361826918] by simp

lemma binary64_10497: "binary64 (10497 / 100) = Finite (3693303538164695 / 35184372088832)"
  using binary64_near [of 6 "10497 / 100" 7386607076329390] by simp

lemma binary64_2: "binary64 2 = Finite 2"
  using binary64_small_int [of 2] by simp

lemma binary64_1: "binary64 1 = Finite 1"
  using binary64_small_int [of 1] by simp

lemma binary64_3: "binary64 3 = Finite 3"
  using binary64_small_int [of 3] by simp

lemma binary64_5: "binary64 5 = Finite 5"
  using binary64_small_int [of 5] by simp

lemma line_total64_4599_times_5:
  "binary64 (32362585447307675 / 140737488355328) = Finite (8090646361826919 / 35184372088832)"
  using binary64_near [of 7 "32362585447307675 / 140737488355328" 8090646361826919] by simp


lemma line_total64_4599_times_2:
  "binary64 (6472517089461535 / 70368744177664) = Finite (6472517089461535 / 70368744177664)"
  using binary64_dyadic [of 6472517089461535 "- 46"] by simp

lemma sum64_scenario:
  "binary64 (59092856610635123 / 562949953421312) = Finite (3693303538164695 / 35184372088832)"
  using binary64_near [of 6 "59092856610635123 / 562949953421312" 7386607076329390]
  by simp

text \<open>
  Claim C1 as stated fails in the engine's arithmetic: the total is a rounded sum of
  rounded products. For one fixture of 5 units at 45.99 the \<open>reduce\<close> stores
  229.95000000000002, which is neither the sum 229.95 of the claim's formula nor the
  double nearest to it.
\<close>

theorem calculateTotalCost_binary64_counterexample:
  "reduce_total64 [sample_row ''f1'' (Some (sample_model ''A'' ''LED Panel'' (4599 / 100))) 5]
     = Finite (8090646361826919 / 35184372088832)
   \<and> spec_total [sample_row ''f1'' (Some (sample_model ''A'' ''LED Panel'' (4599 / 100))) 5]
     = 22995 / 100
   \<and> binary64 (22995 / 100) = Finite (4045323180913459 / 17592186044416)
   \<and> Finite (8090646361826919 / 35184372088832) \<noteq> binary64 (22995 / 100)"
proof -
  have line: "line_total64 (sample_row ''f1'' (Some (sample_model ''A'' ''LED Panel'' (4599 / 100))) 5)
      = Finite (8090646361826919 / 35184372088832)"
    by (simp add: line_total64_def price64_def quantity64_def or_zero64_def sample_row_def
          sample_model_def binary64_4599 binary64_5 line_total64_4599_times_5)
  have "binary64 (32362585447307675 / 140737488355328) = Finite (8090646361826919 / 35184372088832)"
    by (rule line_total64_4599_times_5)
  then have idem: "binary64 (8090646361826919 / 35184372088832) = Finite (8090646361826919 / 35184372088832)"
    by (rule binary64_idem)
  have total: "reduce_total64 [sample_row ''f1'' (Some (sample_model ''A'' ''LED Panel'' (4599 / 100))) 5]
     = Finite (8090646361826919 / 35184372088832)"
    using reduce_total64_snoc [of "[]"] by (simp add: reduce_total64_Nil line idem)
  have exact: "spec_total [sample_row ''f1'' (Some (sample_model ''A'' ''LED Panel'' (4599 / 100))) 5]
     = 22995 / 100"
    by (simp add: spec_total_def spec_line_total_def sample_row_def sample_model_def)
  from total exact show ?thesis
    by (simp add: binary64_22995)
qed

text \<open>
  Claim C1, amended. \<open>calculateTotalCost\<close> stores the binary64 sum, taken left to right
  from 0, of the binary64 products of price (0 when the fixture has no resolved model)
  and quantity, each operation rounded to the nearest double. The total of the empty
  list is 0. When no operation rounds, the total is exactly the sum of price times
  quantity. A fixture with no resolved model (and a finite quantity) contributes
  nothing, wherever it stands in the list. The list of 2 units at 45.99 and 1 unit at
  12.99 totals the double 104.97. The function has no failing branch: it returns a
  number for every list.
\<close>

theorem reduce_total64_rounded_sum:
  "reduce_total64 [] = Finite 0
   \<and> reduce_total64 (fixturesList @ [fixture])
       = add64 (reduce_total64 fixturesList)
           (mul64 (or_zero64 (price64 fixture)) (quantity64 fixture))
   \<and> (rounding_free 0 fixturesList \<longrightarrow>
        reduce_total64 fixturesList
          = Finite (\<Sum>fixture\<leftarrow>fixturesList.
                      (case selected_model fixture of None \<Rightarrow> 0 | Some m \<Rightarrow> unit_price m)
                        * of_int (quantity fixture)))
   \<and> (selected_model unresolved = None \<and> (\<exists>q. quantity64 unresolved = Finite q) \<longrightarrow>
        reduce_total64 (front @ [unresolved] @ others) = reduce_total64 (front @ others))
   \<and> reduce_total64
         [f1\<lparr>quantity := 2, selected_model := Some (m1\<lparr>unit_price := 4599 / 100\<rparr>)\<rparr>,
          f2\<lparr>quantity := 1, selected_model := Some (m2\<lparr>unit_price := 1299 / 100\<rparr>)\<rparr>]
       = binary64 (10497 / 100)"
proof -
  have step: "reduce_total64 (fixturesList @ [fixture])
       = add64 (reduce_total64 fixturesList)
           (mul64 (or_zero64 (price64 fixture)) (quantity64 fixture))"
    using reduce_total64_snoc [of fixturesList fixture] by (simp add: line_total64_def)
  have exact: "rounding_free 0 fixturesList \<longrightarrow>
        reduce_total64 fixturesList
          = Finite (\<Sum>fixture\<leftarrow>fixturesList.
                      (case selected_model fixture of None \<Rightarrow> 0 | Some m \<Rightarrow> unit_price m)
                        * of_int (quantity fixture))"
    using reduce_total64_exact [of fixturesList]
    unfolding spec_total_def spec_line_total_def by blast
  have skip: "selected_model unresolved = None \<and> (\<exists>q. quantity64 unresolved = Finite q) \<longrightarrow>
        reduce_total64 (front @ [unresolved] @ others) = reduce_total64 (front @ others)"
    using reduce_total64_skip_unresolved [of unresolved _ front others] by blast
  have first: "line_total64 (f1\<lparr>quantity := 2, selected_model := Some (m1\<lparr>unit_price := 4599 / 100\<rparr>)\<rparr>)
      = Finite (6472517089461535 / 70368744177664)"
    by (simp add: line_total64_def price64_def quantity64_def or_zero64_def
          binary64_4599 binary64_2 line_total64_4599_times_2)
  have "binary64 (1299 / 100) = Finite (7312719894942843 / 562949953421312)"
    by (rule binary64_1299)
  then have idem: "binary64 (7312719894942843 / 562949953421312) = Finite (7312719894942843 / 562949953421312)"
    by (rule binary64_idem)
  have second: "line_total64 (f2\<lparr>quantity := 1, selected_model := Some (m2\<lparr>unit_price := 1299 / 100\<rparr>)\<rparr>)
      = Finite (7312719894942843 / 562949953421312)"
    by (simp add: line_total64_def price64_def quantity64_def or_zero64_def
          binary64_1299 binary64_1 idem)
  note idem2 = line_total64_4599_times_2
  have scenario: "reduce_total64
         [f1\<lparr>quantity := 2, selected_model := Some (m1\<lparr>unit_price := 4599 / 100\<rparr>)\<rparr>,
          f2\<lparr>quantity := 1, selected_model := Some (m2\<lparr>unit_price := 1299 / 100\<rparr>)\<rparr>]
       = binary64 (10497 / 100)"
    using reduce_total64_append [of "[]"
            "[f1\<lparr>quantity := 2, selected_model := Some (m1\<lparr>unit_price := 4599 / 100\<rparr>)\<rparr>,
              f2\<lparr>quantity := 1, selected_model := Some (m2\<lparr>unit_price := 1299 / 100\<rparr>)\<rparr>]"]
    by (simp add: reduce_total64_Nil first second idem2 sum64_scenario binary64_10497)
  from reduce_total64_Nil step exact skip scenario show ?thesis
    by (intro conjI)
qed


lemma binary64_28: "binary64 28 = Finite 28"
  using binary64_small_int [of 28] by simp

lemma binary64_56: "binary64 56 = Finite 56"
  using binary64_small_int [of 56] by simp

lemma binary64_84: "binary64 84 = Finite 84"
  using binary64_small_int [of 84] by simp

lemma binary64_255_halves: "binary64 (255 / 2) = Finite (255 / 2)"
  using binary64_dyadic [of 255 "- 1"] by simp

lemma binary64_367_halves: "binary64 (367 / 2) = Finite (367 / 2)"
  using binary64_dyadic [of 367 "- 1"] by simp

lemmas binary64_samples =
  binary64_4599 binary64_1299 binary64_4250 binary64_1 binary64_2 binary64_3 binary64_5
  binary64_28 binary64_56 binary64_84 binary64_255_halves binary64_367_halves

text \<open>
  Three units at 42.50 and two at 28.00 total 183.5 with no rounding; an unresolved
  fixture between them changes nothing.
\<close>

theorem reduce_total64_rounded_sum_witness:
  "rounding_free 0
     [sample_row ''f1'' (Some (sample_model ''P36'' ''LED Panel'' (4250 / 100))) 3,
      sample_row ''f2'' (Some (sample_model ''S28'' ''LED Strip'' 28)) 2]
   \<and> reduce_total64
       [sample_row ''f1'' (Some (sample_model ''P36'' ''LED Panel'' (4250 / 100))) 3,
        sample_row ''f2'' (Some (sample_model ''S28'' ''LED Strip'' 28)) 2]
     = Finite (367 / 2)
   \<and> selected_model (sample_row ''f3'' None 3) = None
   \<and> quantity64 (sample_row ''f3'' None 3) = Finite 3
   \<and> reduce_total64
       ([sample_row ''f1'' (Some (sample_model ''P36'' ''LED Panel'' (4250 / 100))) 3]
        @ [sample_row ''f3'' None 3]
        @ [sample_row ''f2'' (Some (sample_model ''S28'' ''LED Strip'' 28)) 2])
     = reduce_total64
       ([sample_row ''f1'' (Some (sample_model ''P36'' ''LED Panel'' (4250 / 100))) 3]
        @ [sample_row ''f2'' (Some (sample_model ''S28'' ''LED Strip'' 28)) 2])"
proof -
  let ?L = "[sample_row ''f1'' (Some (sample_model ''P36'' ''LED Panel'' (4250 / 100))) 3,
      sample_row ''f2'' (Some (sample_model ''S28'' ''LED Strip'' 28)) 2]"
  have free: "rounding_free 0 ?L"
    by (simp add: sample_row_def sample_model_def binary64_samples)
  have none: "selected_model (sample_row ''f3'' None 3) = None"
    by (simp add: sample_row_def)
  have q: "quantity64 (sample_row ''f3'' None 3) = Finite 3"
    by (simp add: quantity64_def sample_row_def binary64_3)
  note t = reduce_total64_rounded_sum
    [where fixturesList = ?L and unresolved = "sample_row ''f3'' None 3"
       and front = "[sample_row ''f1'' (Some (sample_model ''P36'' ''LED Panel'' (4250 / 100))) 3]"
       and others = "[sample_row ''f2'' (Some (sample_model ''S28'' ''LED Strip'' 28)) 2]"]
  from t free have "reduce_total64 ?L
      = Finite (\<Sum>fixture\<leftarrow>?L.
                      (case selected_model fixture of None \<Rightarrow> 0 | Some m \<Rightarrow> unit_price m)
                        * of_int (quantity fixture))"
    by blast
  then have total: "reduce_total64 ?L = Finite (367 / 2)"
    by (simp add: sample_row_def sample_model_def)
  from t none q have skip: "reduce_total64
       ([sample_row ''f1'' (Some (sample_model ''P36'' ''LED Panel'' (4250 / 100))) 3]
        @ [sample_row ''f3'' None 3]
        @ [sample_row ''f2'' (Some (sample_model ''S28'' ''LED Strip'' 28)) 2])
     = reduce_total64
       ([sample_row ''f1'' (Some (sample_model ''P36'' ''LED Panel'' (4250 / 100))) 3]
        @ [sample_row ''f2'' (Some (sample_model ''S28'' ''LED Strip'' 28)) 2])"
    by blast
  from free total none q skip show ?thesis
    by (intro conjI)
qed


section \<open>Selection state: auxiliary facts\<close>

lemma loadProjectData_ok:
  "loadProjectData projectId \<lparr>data = pd, error = None\<rparr> \<lparr>data = fd, error = None\<rparr>
     \<lparr>data = md, error = None\<rparr> s
   = s\<lparr>project := pd,
       store_calls := store_calls s @ [SelectProject projectId, SelectFixtures projectId, SelectModels],
       allModels := or_empty md,
       fixtures := map (withRecommendations (or_empty md)) (or_empty fd),
       totalCost := reduce_total (map (withRecommendations (or_empty md)) (or_empty fd)),
       loading := False\<rparr>"
  by (simp add: loadProjectData_def calculateTotalCost_def Let_def)

lemma fixtures_loadProjectData:
  "fixtures (loadProjectData projectId projectResp fixturesResp modelsResp s)
   = (if error projectResp = None \<and> error fixturesResp = None \<and> error modelsResp = None
      then map (withRecommendations (or_empty (data modelsResp))) (or_empty (data fixturesResp))
      else fixtures s)"
  by (simp add: loadProjectData_def calculateTotalCost_def Let_def split: option.splits)


lemma handleModelChange_ok:
  "handleModelChange fixtureId newModelId None s
   = s\<lparr>store_calls := store_calls s @ [UpdateFixture fixtureId newModelId],
       fixtures := map (\<lambda>fixture.
                          if id_fixture fixture = fixtureId
                          then fixture\<lparr>selected_model_id := Some newModelId,
                                       selected_model := find (\<lambda>m. id_model m = newModelId) (allModels s)\<rparr>
                          else fixture) (fixtures s),
       totalCost := reduce_total (map (\<lambda>fixture.
                          if id_fixture fixture = fixtureId
                          then fixture\<lparr>selected_model_id := Some newModelId,
                                       selected_model := find (\<lambda>m. id_model m = newModelId) (allModels s)\<rparr>
                          else fixture) (fixtures s))\<rparr>"
  by (simp add: handleModelChange_def calculateTotalCost_def Let_def)

lemma handleModelChange_error:
  "handleModelChange fixtureId newModelId (Some e) s
   = s\<lparr>store_calls := store_calls s @ [UpdateFixture fixtureId newModelId],
       console := console s @ [ConsoleError ''Error updating fixture model:'' e]\<rparr>"
  by (simp add: handleModelChange_def Let_def)

lemma spec_line_total_showRecommendations [simp]:
  "spec_line_total (fixture\<lparr>showRecommendations := v\<rparr>) = spec_line_total fixture"
  by (simp add: spec_line_total_def)




lemma withRecommendations_sample_f1:
  "withRecommendations sample_catalog (sample_row ''f1'' (Some (sample_model ''A'' ''LED Panel'' (4599 / 100))) 2)
   = (sample_row ''f1'' (Some (sample_model ''A'' ''LED Panel'' (4599 / 100))) 2)
       \<lparr>recommendations := Some [sample_model ''B'' ''LED Panel'' (1299 / 100)],
        showRecommendations := Some False\<rparr>"
  by (simp add: withRecommendations_def sample_catalog_def sample_row_def sample_model_def)

lemma withRecommendations_sample_f2:
  "withRecommendations sample_catalog (sample_row ''f2'' (Some (sample_model ''B'' ''LED Panel'' (1299 / 100))) 1)
   = (sample_row ''f2'' (Some (sample_model ''B'' ''LED Panel'' (1299 / 100))) 1)
       \<lparr>recommendations := Some [sample_model ''A'' ''LED Panel'' (4599 / 100)],
        showRecommendations := Some False\<rparr>"
  by (simp add: withRecommendations_def sample_catalog_def sample_row_def sample_model_def)

lemma fixtures_sample_loaded:
  "fixtures sample_loaded =
     [(sample_row ''f1'' (Some (sample_model ''A'' ''LED Panel'' (4599 / 100))) 2)
        \<lparr>recommendations := Some [sample_model ''B'' ''LED Panel'' (1299 / 100)],
         showRecommendations := Some False\<rparr>,
      (sample_row ''f2'' (Some (sample_model ''B'' ''LED Panel'' (1299 / 100))) 1)
        \<lparr>recommendations := Some [sample_model ''A'' ''LED Panel'' (4599 / 100)],
         showRecommendations := Some False\<rparr>]"
  by (simp add: sample_loaded_def loadProjectData_ok or_empty_def sample_rows_def
        withRecommendations_sample_f1 withRecommendations_sample_f2)

lemma allModels_sample_loaded: "allModels sample_loaded = sample_catalog"
  by (simp add: sample_loaded_def loadProjectData_ok or_empty_def)

lemma reachable_sample_loaded: "reachable sample_loaded"
  unfolding sample_loaded_def by (intro reach_load reach_init)

lemma find_B: "find (\<lambda>m. id_model m = ''B'') sample_catalog = Some (sample_model ''B'' ''LED Panel'' (1299 / 100))"
  by (simp add: sample_catalog_def sample_model_def)

lemma find_Z: "find (\<lambda>m. id_model m = ''Z'') sample_catalog = None"
  by (simp add: sample_catalog_def sample_model_def)

lemma fixtures_sample_swapped:
  "fixtures (handleModelChange ''f1'' ''B'' None sample_loaded) =
     [(sample_row ''f1'' (Some (sample_model ''B'' ''LED Panel'' (1299 / 100))) 2)
        \<lparr>recommendations := Some [sample_model ''B'' ''LED Panel'' (1299 / 100)],
         showRecommendations := Some False\<rparr>,
      (sample_row ''f2'' (Some (sample_model ''B'' ''LED Panel'' (1299 / 100))) 1)
        \<lparr>recommendations := Some [sample_model ''A'' ''LED Panel'' (4599 / 100)],
         showRecommendations := Some False\<rparr>]"
  by (simp add: handleModelChange_ok fixtures_sample_loaded allModels_sample_loaded find_B)
     (simp add: sample_row_def sample_model_def)

lemma handleModelChange_fixtures:
  "fixtures (handleModelChange fixtureId newModelId updateError s)
   = (case updateError of
        Some e \<Rightarrow> fixtures s
      | None \<Rightarrow> map (\<lambda>fixture.
                          if id_fixture fixture = fixtureId
                          then fixture\<lparr>selected_model_id := Some newModelId,
                                       selected_model := find (\<lambda>m. id_model m = newModelId) (allModels s)\<rparr>
                          else fixture) (fixtures s))"
  by (cases updateError) (simp_all add: handleModelChange_ok handleModelChange_error)

lemma map_single_update:
  assumes "distinct (map key xs)" and "i < length xs" and "key (xs ! i) = k"
  shows "map (\<lambda>x. if key x = k then g x else x) xs = xs[i := g (xs ! i)]"
proof (rule nth_equalityI)
  show "length (map (\<lambda>x. if key x = k then g x else x) xs) = length (xs[i := g (xs ! i)])"
    by simp
next
  fix j assume "j < length (map (\<lambda>x. if key x = k then g x else x) xs)"
  then have j: "j < length xs" by simp
  show "map (\<lambda>x. if key x = k then g x else x) xs ! j = xs[i := g (xs ! i)] ! j"
  proof (cases "j = i")
    case True
    with assms show ?thesis by simp
  next
    case False
    have "key (xs ! j) \<noteq> key (xs ! i)"
      using assms(1,2) j False by (simp add: nth_eq_iff_index_eq [of "map key xs", symmetric] del: distinct_map)
    with assms(3) j False show ?thesis by simp
  qed
qed


lemma reachable_recommendations:
  "reachable s \<Longrightarrow> \<forall>fixture \<in> set (fixtures s). \<exists>recs. recommendations fixture = Some recs \<and> length recs \<le> 3"
proof (induction rule: reachable.induct)
  case reach_init
  show ?case by (simp add: initialState_def)
next
  case (reach_load s projectId projectResp fixturesResp modelsResp)
  then show ?case
    by (auto simp add: fixtures_loadProjectData withRecommendations_def Let_def)
next
  case (reach_apply s fixtureId newModelId updateError)
  then show ?case
    by (cases updateError) (auto simp add: handleModelChange_fixtures)
next
  case (reach_toggle s fixtureId)
  then show ?case
    by (auto simp add: toggleRecommendations_def)
qed

lemma reachable_flags:
  "reachable s \<Longrightarrow> \<forall>fixture \<in> set (fixtures s). \<exists>b. showRecommendations fixture = Some b"
proof (induction rule: reachable.induct)
  case reach_init
  show ?case by (simp add: initialState_def)
next
  case (reach_load s projectId projectResp fixturesResp modelsResp)
  then show ?case
    by (auto simp add: fixtures_loadProjectData withRecommendations_def Let_def)
next
  case (reach_apply s fixtureId newModelId updateError)
  then show ?case
    by (cases updateError) (auto simp add: handleModelChange_fixtures)
next
  case (reach_toggle s fixtureId)
  then show ?case
    by (auto simp add: toggleRecommendations_def)
qed

lemma toggleRecommendations_twice:
  assumes "\<forall>fixture \<in> set (fixtures s). \<exists>b. showRecommendations fixture = Some b"
  shows "toggleRecommendations fixtureId (toggleRecommendations fixtureId s) = s"
proof -
  have "map ((\<lambda>fixture. if id_fixture fixture = fixtureId
           then fixture\<lparr>showRecommendations := Some (js_not (showRecommendations fixture))\<rparr>
           else fixture) \<circ> (\<lambda>fixture. if id_fixture fixture = fixtureId
           then fixture\<lparr>showRecommendations := Some (js_not (showRecommendations fixture))\<rparr>
           else fixture)) (fixtures s) = map (\<lambda>fixture. fixture) (fixtures s)"
    using assms by (intro map_cong refl) (auto simp add: js_not_def)
  then show ?thesis
    by (simp add: toggleRecommendations_def)
qed




text \<open>
  Claim C3 as stated fails: \<open>handleModelChange\<close> does not recompute the recommendation
  lists. In the sample session fixture f1 (model A) is offered model B; once B is
  selected, the list of f1 still holds B, the fixture's own current selection.
\<close>

theorem recommendations_include_selection_counterexample:
  "reachable (handleModelChange ''f1'' ''B'' None sample_loaded)
   \<and> selected_model_id (fixtures (handleModelChange ''f1'' ''B'' None sample_loaded) ! 0) = Some ''B''
   \<and> map_option (map id_model)
        (recommendations (fixtures (handleModelChange ''f1'' ''B'' None sample_loaded) ! 0))
       = Some [''B'']"
proof -
  have "reachable (handleModelChange ''f1'' ''B'' None sample_loaded)"
    by (intro reach_apply reachable_sample_loaded)
  then show ?thesis
    by (simp add: fixtures_sample_swapped sample_row_def sample_model_def)
qed

text \<open>
  Claim C3, amended. Right after a load that completes, every fixture's recommendation
  list has at most 3 entries and does not hold the fixture's selected model id. In
  every reachable state every list has at most 3 entries. \<open>handleModelChange\<close> and
  \<open>toggleRecommendations\<close> leave every list as it is, and \<open>toggleRecommendations\<close>
  leaves the selected ids as they are; so the lists exclude the selection made at load
  time, not the one made since by \<open>handleModelChange\<close>.
\<close>

theorem recommendations_capped_and_stable:
  "(\<forall>fixture \<in> set (fixtures (loadProjectData projectId \<lparr>data = pd, error = None\<rparr>
        \<lparr>data = fd, error = None\<rparr> \<lparr>data = md, error = None\<rparr> s)).
      \<exists>recs. recommendations fixture = Some recs \<and> length recs \<le> 3
           \<and> selected_model_id fixture \<notin> set (map (\<lambda>m. Some (id_model m)) recs))
   \<and> (reachable t \<longrightarrow>
        (\<forall>fixture \<in> set (fixtures t). \<exists>recs. recommendations fixture = Some recs \<and> length recs \<le> 3))
   \<and> map recommendations (fixtures (handleModelChange fixtureId newModelId updateError u))
       = map recommendations (fixtures u)
   \<and> map recommendations (fixtures (toggleRecommendations fixtureId u))
       = map recommendations (fixtures u)
   \<and> map selected_model_id (fixtures (toggleRecommendations fixtureId u))
       = map selected_model_id (fixtures u)"
proof -
  have fresh: "\<forall>fixture \<in> set (fixtures (loadProjectData projectId \<lparr>data = pd, error = None\<rparr>
        \<lparr>data = fd, error = None\<rparr> \<lparr>data = md, error = None\<rparr> s)).
      \<exists>recs. recommendations fixture = Some recs \<and> length recs \<le> 3
           \<and> selected_model_id fixture \<notin> set (map (\<lambda>m. Some (id_model m)) recs)"
    by (auto simp add: loadProjectData_ok withRecommendations_def Let_def dest!: in_set_takeD)
  have apply_keeps: "map recommendations (fixtures (handleModelChange fixtureId newModelId updateError u))
       = map recommendations (fixtures u)"
    by (cases updateError) (simp_all add: handleModelChange_fixtures comp_def if_distrib cong: if_cong)
  have toggle_keeps: "map recommendations (fixtures (toggleRecommendations fixtureId u))
       = map recommendations (fixtures u)"
    by (simp add: toggleRecommendations_def comp_def if_distrib cong: if_cong)
  have toggle_ids: "map selected_model_id (fixtures (toggleRecommendations fixtureId u))
       = map selected_model_id (fixtures u)"
    by (simp add: toggleRecommendations_def comp_def if_distrib cong: if_cong)
  from fresh apply_keeps toggle_keeps toggle_ids reachable_recommendations
  show ?thesis by blast
qed

text \<open>Both quantified parts at the first fixture of the sample session.\<close>

theorem recommendations_capped_and_stable_witness:
  "reachable (handleModelChange ''f1'' ''B'' None sample_loaded)
   \<and> fixtures (handleModelChange ''f1'' ''B'' None sample_loaded) \<noteq> []
   \<and> (\<exists>recs. recommendations (fixtures (handleModelChange ''f1'' ''B'' None sample_loaded) ! 0) = Some recs
          \<and> length recs \<le> 3)
   \<and> fixtures sample_loaded \<noteq> []
   \<and> (\<exists>recs. recommendations (fixtures sample_loaded ! 0) = Some recs \<and> length recs \<le> 3
          \<and> selected_model_id (fixtures sample_loaded ! 0) \<notin> set (map (\<lambda>m. Some (id_model m)) recs))"
proof -
  let ?t = "handleModelChange ''f1'' ''B'' None sample_loaded"
  have r: "reachable ?t"
    by (intro reach_apply reachable_sample_loaded)
  have ne: "fixtures ?t \<noteq> []" "fixtures sample_loaded \<noteq> []"
    by (simp_all add: fixtures_sample_swapped fixtures_sample_loaded)
  then have mem: "fixtures ?t ! 0 \<in> set (fixtures ?t)" "fixtures sample_loaded ! 0 \<in> set (fixtures sample_loaded)"
    by simp_all
  have "\<forall>fixture \<in> set (fixtures ?t). \<exists>recs. recommendations fixture = Some recs \<and> length recs \<le> 3"
    using recommendations_capped_and_stable [where t = ?t] r by blast
  with mem(1) have a: "\<exists>recs. recommendations (fixtures ?t ! 0) = Some recs \<and> length recs \<le> 3"
    by blast
  have "\<forall>fixture \<in> set (fixtures sample_loaded).
      \<exists>recs. recommendations fixture = Some recs \<and> length recs \<le> 3
           \<and> selected_model_id fixture \<notin> set (map (\<lambda>m. Some (id_model m)) recs)"
    unfolding sample_loaded_def
    using recommendations_capped_and_stable
            [where projectId = "Some ''p1''" and pd = None and fd = "Some sample_rows"
               and md = "Some sample_catalog" and s = initialState]
    by blast
  with mem(2) have b: "\<exists>recs. recommendations (fixtures sample_loaded ! 0) = Some recs \<and> length recs \<le> 3
          \<and> selected_model_id (fixtures sample_loaded ! 0) \<notin> set (map (\<lambda>m. Some (id_model m)) recs)"
    by blast
  from r ne a b show ?thesis by blast
qed

text \<open>
  Claim C4. When the store answers the update of \<open>handleModelChange\<close> with an error,
  the fixtures list and the total cost are what they were before the call: the only
  changes are the update call that was issued and the line written by
  \<open>console.error\<close>. Nothing was changed locally before the answer, so nothing is
  rolled back.
\<close>

theorem handleModelChange_failure_keeps_state:
  "handleModelChange fixtureId newModelId (Some e) s
     = s\<lparr>store_calls := store_calls s @ [UpdateFixture fixtureId newModelId],
         console := console s @ [ConsoleError ''Error updating fixture model:'' e]\<rparr>
   \<and> fixtures (handleModelChange fixtureId newModelId (Some e) s) = fixtures s
   \<and> totalCost (handleModelChange fixtureId newModelId (Some e) s) = totalCost s"
  by (simp add: handleModelChange_error)

lemma nth_handleModelChange_ok:
  "i < length (fixtures s) \<Longrightarrow>
   fixtures (handleModelChange fixtureId newModelId None s) ! i
   = (if id_fixture (fixtures s ! i) = fixtureId
      then (fixtures s ! i)\<lparr>selected_model_id := Some newModelId,
                            selected_model := find (\<lambda>m. id_model m = newModelId) (allModels s)\<rparr>
      else fixtures s ! i)"
  by (simp add: handleModelChange_ok)

lemma find_id_model: "find (\<lambda>m. id_model m = newModelId) ms = Some newModel \<Longrightarrow> id_model newModel = newModelId"
  by (auto simp add: find_Some_iff)

text \<open>
  Claim C5. When the new model id is found in the loaded catalog and the store confirms
  the update, \<open>handleModelChange\<close> keeps the list's length and order; a fixture whose
  id matches has its \<open>selected_model_id\<close> and \<open>selected_model\<close> replaced by the new id
  and the catalog's model of that id, and nothing else; every other fixture is
  unchanged. Recommendations, visibility flag, quantity, room, symbol and lux level of
  every fixture stay as they were. With the store's unique fixture ids, exactly the one
  list position of the given id is updated.
\<close>

theorem handleModelChange_frame:
  assumes "find (\<lambda>m. id_model m = newModelId) (allModels s) = Some newModel"
  shows "length (fixtures (handleModelChange fixtureId newModelId None s)) = length (fixtures s)
   \<and> (\<forall>i < length (fixtures s).
        (id_fixture (fixtures s ! i) = fixtureId \<longrightarrow>
           fixtures (handleModelChange fixtureId newModelId None s) ! i
             = (fixtures s ! i)\<lparr>selected_model_id := Some newModelId, selected_model := Some newModel\<rparr>)
      \<and> (id_fixture (fixtures s ! i) \<noteq> fixtureId \<longrightarrow>
           fixtures (handleModelChange fixtureId newModelId None s) ! i = fixtures s ! i)
      \<and> recommendations (fixtures (handleModelChange fixtureId newModelId None s) ! i)
           = recommendations (fixtures s ! i)
      \<and> showRecommendations (fixtures (handleModelChange fixtureId newModelId None s) ! i)
           = showRecommendations (fixtures s ! i)
      \<and> quantity (fixtures (handleModelChange fixtureId newModelId None s) ! i)
           = quantity (fixtures s ! i)
      \<and> room_name (fixtures (handleModelChange fixtureId newModelId None s) ! i)
           = room_name (fixtures s ! i)
      \<and> detected_symbol (fixtures (handleModelChange fixtureId newModelId None s) ! i)
           = detected_symbol (fixtures s ! i)
      \<and> lux_level (fixtures (handleModelChange fixtureId newModelId None s) ! i)
           = lux_level (fixtures s ! i)
      \<and> id_fixture (fixtures (handleModelChange fixtureId newModelId None s) ! i)
           = id_fixture (fixtures s ! i))
   \<and> (distinct (map id_fixture (fixtures s)) \<longrightarrow>
        (\<forall>i < length (fixtures s). id_fixture (fixtures s ! i) = fixtureId \<longrightarrow>
           fixtures (handleModelChange fixtureId newModelId None s)
             = (fixtures s)[i := (fixtures s ! i)\<lparr>selected_model_id := Some newModelId,
                                                  selected_model := Some newModel\<rparr>]))
   \<and> id_model newModel = newModelId"
proof -
  have len: "length (fixtures (handleModelChange fixtureId newModelId None s)) = length (fixtures s)"
    by (simp add: handleModelChange_ok)
  have pointwise: "\<forall>i < length (fixtures s).
        (id_fixture (fixtures s ! i) = fixtureId \<longrightarrow>
           fixtures (handleModelChange fixtureId newModelId None s) ! i
             = (fixtures s ! i)\<lparr>selected_model_id := Some newModelId, selected_model := Some newModel\<rparr>)
      \<and> (id_fixture (fixtures s ! i) \<noteq> fixtureId \<longrightarrow>
           fixtures (handleModelChange fixtureId newModelId None s) ! i = fixtures s ! i)
      \<and> recommendations (fixtures (handleModelChange fixtureId newModelId None s) ! i)
           = recommendations (fixtures s ! i)
      \<and> showRecommendations (fixtures (handleModelChange fixtureId newModelId None s) ! i)
           = showRecommendations (fixtures s ! i)
      \<and> quantity (fixtures (handleModelChange fixtureId newModelId None s) ! i)
           = quantity (fixtures s ! i)
      \<and> room_name (fixtures (handleModelChange fixtureId newModelId None s) ! i)
           = room_name (fixtures s ! i)
      \<and> detected_symbol (fixtures (handleModelChange fixtureId newModelId None s) ! i)
           = detected_symbol (fixtures s ! i)
      \<and> lux_level (fixtures (handleModelChange fixtureId newModelId None s) ! i)
           = lux_level (fixtures s ! i)
      \<and> id_fixture (fixtures (handleModelChange fixtureId newModelId None s) ! i)
           = id_fixture (fixtures s ! i)"
    using assms by (simp add: nth_handleModelChange_ok)
  have single: "distinct (map id_fixture (fixtures s)) \<longrightarrow>
        (\<forall>i < length (fixtures s). id_fixture (fixtures s ! i) = fixtureId \<longrightarrow>
           fixtures (handleModelChange fixtureId newModelId None s)
             = (fixtures s)[i := (fixtures s ! i)\<lparr>selected_model_id := Some newModelId,
                                                  selected_model := Some newModel\<rparr>])"
    using assms by (auto simp add: handleModelChange_fixtures
          map_single_update [where key = id_fixture and k = fixtureId] simp del: distinct_map)
  from len pointwise single find_id_model [OF assms] show ?thesis
    by (intro conjI)
qed

lemma sample_loaded_ids: "map id_fixture (fixtures sample_loaded) = [''f1'', ''f2'']"
  by (simp add: fixtures_sample_loaded sample_row_def)

lemma find_B_loaded:
  "find (\<lambda>m. id_model m = ''B'') (allModels sample_loaded) = Some (sample_model ''B'' ''LED Panel'' (1299 / 100))"
  by (simp add: allModels_sample_loaded find_B)

text \<open>The sample session: fixture f1 takes model B, fixture f2 is untouched.\<close>

theorem handleModelChange_frame_witness:
  "find (\<lambda>m. id_model m = ''B'') (allModels sample_loaded)
     = Some (sample_model ''B'' ''LED Panel'' (1299 / 100))
   \<and> distinct (map id_fixture (fixtures sample_loaded))
   \<and> 0 < length (fixtures sample_loaded)
   \<and> id_fixture (fixtures sample_loaded ! 0) = ''f1''
   \<and> fixtures (handleModelChange ''f1'' ''B'' None sample_loaded)
       = (fixtures sample_loaded)
           [0 := (fixtures sample_loaded ! 0)
                   \<lparr>selected_model_id := Some ''B'',
                    selected_model := Some (sample_model ''B'' ''LED Panel'' (1299 / 100))\<rparr>]
   \<and> 1 < length (fixtures sample_loaded)
   \<and> id_fixture (fixtures sample_loaded ! 1) \<noteq> ''f1''
   \<and> fixtures (handleModelChange ''f1'' ''B'' None sample_loaded) ! 1 = fixtures sample_loaded ! 1"
proof -
  have d: "distinct (map id_fixture (fixtures sample_loaded))"
    by (simp add: sample_loaded_ids del: distinct_map)
  have l: "0 < length (fixtures sample_loaded)" "1 < length (fixtures sample_loaded)"
    by (simp_all add: fixtures_sample_loaded)
  have i: "id_fixture (fixtures sample_loaded ! 0) = ''f1''" "id_fixture (fixtures sample_loaded ! 1) \<noteq> ''f1''"
    by (simp_all add: fixtures_sample_loaded sample_row_def)
  from handleModelChange_frame [OF find_B_loaded, of "''f1''"] d l i find_B_loaded
  show ?thesis by blast
qed








lemma line_total64_same_price_quantity:
  "selected_model f' = selected_model f \<Longrightarrow> quantity f' = quantity f \<Longrightarrow> line_total64 f' = line_total64 f"
  by (simp add: line_total64_def price64_def quantity64_def)



text \<open>
  Claim C7. One call of \<open>toggleRecommendations\<close> negates the visibility flag of the
  fixture with the given id (exactly one list position, with unique ids), leaves every
  other field of every fixture, the catalog, the project and the total cost as they
  were, and issues no store call and no log line. In every reachable state the flags
  are defined, and two calls with the same id give back the whole state.
\<close>

theorem toggleRecommendations_involution:
  "length (fixtures (toggleRecommendations fixtureId s)) = length (fixtures s)
   \<and> (\<forall>i < length (fixtures s).
        (id_fixture (fixtures s ! i) = fixtureId \<longrightarrow>
           fixtures (toggleRecommendations fixtureId s) ! i
             = (fixtures s ! i)\<lparr>showRecommendations := Some (js_not (showRecommendations (fixtures s ! i)))\<rparr>)
      \<and> (id_fixture (fixtures s ! i) \<noteq> fixtureId \<longrightarrow>
           fixtures (toggleRecommendations fixtureId s) ! i = fixtures s ! i))
   \<and> (distinct (map id_fixture (fixtures s)) \<longrightarrow>
        (\<forall>i < length (fixtures s). id_fixture (fixtures s ! i) = fixtureId \<longrightarrow>
           fixtures (toggleRecommendations fixtureId s)
             = (fixtures s)[i := (fixtures s ! i)\<lparr>showRecommendations :=
                                      Some (js_not (showRecommendations (fixtures s ! i)))\<rparr>]))
   \<and> store_calls (toggleRecommendations fixtureId s) = store_calls s
   \<and> console (toggleRecommendations fixtureId s) = console s
   \<and> project (toggleRecommendations fixtureId s) = project s
   \<and> allModels (toggleRecommendations fixtureId s) = allModels s
   \<and> totalCost (toggleRecommendations fixtureId s) = totalCost s
   \<and> loading (toggleRecommendations fixtureId s) = loading s
   \<and> (reachable s \<longrightarrow>
        (\<forall>fixture \<in> set (fixtures s). \<exists>b. showRecommendations fixture = Some b
                                          \<and> js_not (showRecommendations fixture) = (\<not> b))
        \<and> toggleRecommendations fixtureId (toggleRecommendations fixtureId s) = s)"
proof -
  have pointwise: "\<forall>i < length (fixtures s).
        (id_fixture (fixtures s ! i) = fixtureId \<longrightarrow>
           fixtures (toggleRecommendations fixtureId s) ! i
             = (fixtures s ! i)\<lparr>showRecommendations := Some (js_not (showRecommendations (fixtures s ! i)))\<rparr>)
      \<and> (id_fixture (fixtures s ! i) \<noteq> fixtureId \<longrightarrow>
           fixtures (toggleRecommendations fixtureId s) ! i = fixtures s ! i)"
    by (simp add: toggleRecommendations_def)
  have single: "distinct (map id_fixture (fixtures s)) \<longrightarrow>
        (\<forall>i < length (fixtures s). id_fixture (fixtures s ! i) = fixtureId \<longrightarrow>
           fixtures (toggleRecommendations fixtureId s)
             = (fixtures s)[i := (fixtures s ! i)\<lparr>showRecommendations :=
                                      Some (js_not (showRecommendations (fixtures s ! i)))\<rparr>])"
    by (auto simp add: toggleRecommendations_def
          map_single_update [where key = id_fixture and k = fixtureId] simp del: distinct_map)
  have rest: "length (fixtures (toggleRecommendations fixtureId s)) = length (fixtures s)"
    "store_calls (toggleRecommendations fixtureId s) = store_calls s"
    "console (toggleRecommendations fixtureId s) = console s"
    "project (toggleRecommendations fixtureId s) = project s"
    "allModels (toggleRecommendations fixtureId s) = allModels s"
    "totalCost (toggleRecommendations fixtureId s) = totalCost s"
    "loading (toggleRecommendations fixtureId s) = loading s"
    by (simp_all add: toggleRecommendations_def)
  have twice: "reachable s \<longrightarrow>
        (\<forall>fixture \<in> set (fixtures s). \<exists>b. showRecommendations fixture = Some b
                                          \<and> js_not (showRecommendations fixture) = (\<not> b))
        \<and> toggleRecommendations fixtureId (toggleRecommendations fixtureId s) = s"
  proof
    assume "reachable s"
    then have flags: "\<forall>fixture \<in> set (fixtures s). \<exists>b. showRecommendations fixture = Some b"
      by (rule reachable_flags)
    then have "\<forall>fixture \<in> set (fixtures s). \<exists>b. showRecommendations fixture = Some b
                                          \<and> js_not (showRecommendations fixture) = (\<not> b)"
      by (auto simp add: js_not_def)
    with toggleRecommendations_twice [OF flags]
    show "(\<forall>fixture \<in> set (fixtures s). \<exists>b. showRecommendations fixture = Some b
                                          \<and> js_not (showRecommendations fixture) = (\<not> b))
        \<and> toggleRecommendations fixtureId (toggleRecommendations fixtureId s) = s"
      by simp
  qed
  from pointwise single rest twice show ?thesis
    by (intro conjI)
qed

text \<open>The sample session: the flag of f1 goes from false to true, and back with a second call.\<close>

theorem toggleRecommendations_involution_witness:
  "reachable sample_loaded
   \<and> distinct (map id_fixture (fixtures sample_loaded))
   \<and> 0 < length (fixtures sample_loaded)
   \<and> id_fixture (fixtures sample_loaded ! 0) = ''f1''
   \<and> showRecommendations (fixtures sample_loaded ! 0) = Some False
   \<and> showRecommendations (fixtures (toggleRecommendations ''f1'' sample_loaded) ! 0) = Some True
   \<and> fixtures (toggleRecommendations ''f1'' sample_loaded) ! 1 = fixtures sample_loaded ! 1
   \<and> fixtures (toggleRecommendations ''f1'' sample_loaded)
       = (fixtures sample_loaded)
           [0 := (fixtures sample_loaded ! 0)
                   \<lparr>showRecommendations :=
                      Some (js_not (showRecommendations (fixtures sample_loaded ! 0)))\<rparr>]
   \<and> toggleRecommendations ''f1'' (toggleRecommendations ''f1'' sample_loaded) = sample_loaded"
proof -
  have d: "distinct (map id_fixture (fixtures sample_loaded))"
    by (simp add: sample_loaded_ids del: distinct_map)
  have l: "0 < length (fixtures sample_loaded)" "1 < length (fixtures sample_loaded)"
    by (simp_all add: fixtures_sample_loaded)
  have i: "id_fixture (fixtures sample_loaded ! 0) = ''f1''" "id_fixture (fixtures sample_loaded ! 1) \<noteq> ''f1''"
    by (simp_all add: fixtures_sample_loaded sample_row_def)
  have f: "showRecommendations (fixtures sample_loaded ! 0) = Some False"
    by (simp add: fixtures_sample_loaded)
  note t = toggleRecommendations_involution [of "''f1''" sample_loaded]
  from t l(1) i(1) have "fixtures (toggleRecommendations ''f1'' sample_loaded) ! 0
       = (fixtures sample_loaded ! 0)\<lparr>showRecommendations :=
            Some (js_not (showRecommendations (fixtures sample_loaded ! 0)))\<rparr>"
    by blast
  then have a: "showRecommendations (fixtures (toggleRecommendations ''f1'' sample_loaded) ! 0) = Some True"
    by (simp add: f js_not_def)
  from t l(2) i(2) have b: "fixtures (toggleRecommendations ''f1'' sample_loaded) ! 1 = fixtures sample_loaded ! 1"
    by blast
  from t reachable_sample_loaded
  have c: "toggleRecommendations ''f1'' (toggleRecommendations ''f1'' sample_loaded) = sample_loaded"
    by blast
  from t d l(1) i(1)
  have e: "fixtures (toggleRecommendations ''f1'' sample_loaded)
       = (fixtures sample_loaded)
           [0 := (fixtures sample_loaded ! 0)
                   \<lparr>showRecommendations :=
                      Some (js_not (showRecommendations (fixtures sample_loaded ! 0)))\<rparr>]"
    by blast
  from reachable_sample_loaded d l i f a b c e show ?thesis by blast
qed


lemma find_Z_loaded: "find (\<lambda>m. id_model m = ''Z'') (allModels sample_loaded) = None"
  by (simp add: allModels_sample_loaded find_Z)

lemma fixtures_sample_unresolved:
  "fixtures (handleModelChange ''f1'' ''Z'' None sample_loaded) =
     [(sample_row ''f1'' (Some (sample_model ''A'' ''LED Panel'' (4599 / 100))) 2)
        \<lparr>selected_model_id := Some ''Z'', selected_model := None,
         recommendations := Some [sample_model ''B'' ''LED Panel'' (1299 / 100)],
         showRecommendations := Some False\<rparr>,
      (sample_row ''f2'' (Some (sample_model ''B'' ''LED Panel'' (1299 / 100))) 1)
        \<lparr>recommendations := Some [sample_model ''A'' ''LED Panel'' (4599 / 100)],
         showRecommendations := Some False\<rparr>]"
  by (simp add: handleModelChange_ok fixtures_sample_loaded find_Z_loaded)
     (simp add: sample_row_def)

lemma allModels_is_store_catalog:
  "allModels (loadProjectData projectId \<lparr>data = pd, error = None\<rparr> \<lparr>data = fd, error = None\<rparr>
                \<lparr>data = Some (fixture_models_rows store), error = None\<rparr> s)
   = fixture_models_rows store"
  by (simp add: loadProjectData_ok or_empty_def)



section \<open>Export formatter: results\<close>

lemma is_digit_digit_char: "d < 10 \<Longrightarrow> is_digit (digit_char d)"
proof -
  assume "d < 10"
  then have "d < length ''0123456789''" by simp
  then have "''0123456789'' ! d \<in> set ''0123456789''" by (rule nth_mem)
  then show ?thesis by (simp only: is_digit_def digit_char_def)
qed

lemma digits_all_digits: "list_all is_digit (digits n)"
proof (induction n rule: digits.induct)
  case (1 n)
  show ?case
  proof (cases "n < 10")
    case True
    then show ?thesis by (subst digits.simps) (simp add: is_digit_digit_char)
  next
    case False
    with 1 show ?thesis by (subst digits.simps) (simp add: is_digit_digit_char)
  qed
qed

lemma digits_nonempty: "digits n \<noteq> []"
  by (subst digits.simps) simp

lemma money_format_pointed:
  assumes "list_all is_digit m" and "3 \<le> length m"
  shows "money_format (''$'' @ take (length m - 2) m @ ''.'' @ drop (length m - 2) m)"
proof -
  let ?rest = "take (length m - 2) m @ CHR ''.'' # drop (length m - 2) m"
  have len: "length ?rest = length m + 1" using assms(2) by simp
  have a: "take (length ?rest - 3) ?rest = take (length m - 2) m"
    using assms(2) by (simp add: len)
  have b: "?rest ! (length ?rest - 3) = CHR ''.''"
    using assms(2) by (simp add: len nth_append)
  have c: "drop (length ?rest - 2) ?rest = drop (length m - 2) m"
    using assms(2) by (simp add: len)
  have d: "list_all is_digit (take (length m - 2) m)" "list_all is_digit (drop (length m - 2) m)"
    using assms(1) by (auto simp add: list_all_iff dest: in_set_takeD in_set_dropD)
  have "money_format (CHR ''$'' # ?rest)"
    unfolding money_format_def list.case a b c using d len assms(2) by simp
  then show ?thesis by simp
qed

lemma money_format_toFixed2:
  assumes "0 \<le> x"
  shows "money_format (''$'' @ toFixed2 x)"
proof -
  define m0 where "m0 = digits (nat \<lfloor>x * 100 + 1 / 2\<rfloor>)"
  define m where "m = (if length m0 \<le> 2 then replicate (3 - length m0) CHR ''0'' @ m0 else m0)"
  have "list_all is_digit m0" unfolding m0_def by (rule digits_all_digits)
  then have all: "list_all is_digit m"
    by (simp add: m_def is_digit_def list_all_iff)
  have "m0 \<noteq> []" unfolding m0_def by (rule digits_nonempty)
  then have len: "3 \<le> length m"
    by (simp add: m_def)
  have "toFixed2 x = take (length m - 2) m @ ''.'' @ drop (length m - 2) m"
    using assms unfolding toFixed2_def Let_def m_def m0_def by simp
  with money_format_pointed [OF all len] show ?thesis by simp
qed




lemma tableRow_unresolved:
  "selected_model fixture = None \<Longrightarrow>
   tableRow fixture ! 2 = ''N/A'' \<and> tableRow fixture ! 3 = ''N/A''
   \<and> tableRow fixture ! 5 = ''$0.00'' \<and> tableRow fixture ! 6 = ''$0.00''"
proof -
  assume "selected_model fixture = None"
  moreover have "toFixed2 0 = ''0.00''" by code_simp
  ultimately show ?thesis
    by (simp add: tableRow_def str_or_def or_zero_def selected_unit_price_def)
qed

lemma toFixed2_nonempty: "toFixed2 x \<noteq> []"
  by (simp add: toFixed2_def Let_def)

lemma tableRow_unit_price_cell:
  assumes "\<forall>m. selected_model fixture = Some m \<longrightarrow> 0 \<le> unit_price m"
  shows "money_format (tableRow fixture ! 5)"
proof (cases "selected_model fixture")
  case None
  have "money_format ''$0.00''" by code_simp
  with None show ?thesis
    by (simp add: tableRow_def str_or_def)
next
  case (Some m)
  with assms have "0 \<le> unit_price m" by simp
  then have "money_format (''$'' @ toFixed2 (unit_price m))"
    by (rule money_format_toFixed2)
  with Some show ?thesis
    by (simp add: tableRow_def str_or_def toFixed2_nonempty)
qed

lemma tableRow_line_total_cell:
  assumes "0 \<le> or_zero (selected_unit_price fixture) * of_int (quantity fixture)"
  shows "money_format (tableRow fixture ! 6)"
  using money_format_toFixed2 [OF assms] by (simp add: tableRow_def)

text \<open>
  Claim C8 as stated fails on two points. A fixture with no resolved model has ``N/A''
  in its model and manufacturer cells only: its unit price and line total cells read
  \<open>$0.00\<close>, by the fallbacks \<open>|| '0.00'\<close> and \<open>|| 0\<close>. And a snapshot is not bound
  to non-negative prices (the column has no check): a price of \<open>-1\<close> is rendered
  \<open>$-1.00\<close>, which is not of the money format.
\<close>

theorem exportToPDF_unresolved_counterexample:
  "table_body (exportToPDF ''3/11/2026'' 1780000000000 120
       (initialState\<lparr>fixtures := [sample_row ''f1'' None 3]\<rparr>))
     = [[''LIGHT_01'', ''Lobby'', ''N/A'', ''N/A'', ''3'', ''$0.00'', ''$0.00'']]
   \<and> table_body (exportToPDF ''3/11/2026'' 1780000000000 120
       (initialState\<lparr>fixtures := [sample_row ''f1'' (Some (sample_model ''A'' ''LED Panel'' (- 1))) 1]\<rparr>))
     = [[''LIGHT_01'', ''Lobby'', ''Model A'', ''Acme'', ''1'', ''$-1.00'', ''$-1.00'']]
   \<and> \<not> money_format ''$-1.00''"
proof -
  have a: "tableRow (sample_row ''f1'' None 3)
      = [''LIGHT_01'', ''Lobby'', ''N/A'', ''N/A'', ''3'', ''$0.00'', ''$0.00'']"
    by code_simp
  have b: "tableRow (sample_row ''f1'' (Some (sample_model ''A'' ''LED Panel'' (- 1))) 1)
      = [''LIGHT_01'', ''Lobby'', ''Model A'', ''Acme'', ''1'', ''$-1.00'', ''$-1.00'']"
    by code_simp
  have c: "\<not> money_format ''$-1.00''"
    by code_simp
  from a b c show ?thesis
    by (simp add: exportToPDF_def)
qed

text \<open>
  Claim C8, amended. For every snapshot, \<open>exportToPDF\<close> hands the table one head row and
  exactly one body row per fixture, in the list's order, each of 7 cells, and writes the
  total as one last line of text below the table, so that body rows and total line
  number fixture count + 1. For a fixture with no resolved model the model and
  manufacturer cells read ``N/A'' and the two money cells read \<open>$0.00\<close>. The unit price
  cell is of the format \<open>^\$\d+\.\d{2}$\<close> when the model is unresolved or its price is
  non-negative; the line total cell and the amount of the total line are of that format
  when the value is non-negative (all below \<open>10^21\<close>, where \<open>toFixed\<close> leaves fixed
  notation).
\<close>

theorem exportToPDF_rows_and_money:
  "length (table_body (exportToPDF localeDate time lastFinalY s)) = length (fixtures s)
   \<and> length (table_head (exportToPDF localeDate time lastFinalY s)) = 1
   \<and> last (texts (exportToPDF localeDate time lastFinalY s))
       = (''Total Project Cost: $'' @ toFixed2 (totalCost s), 14,
          (if lastFinalY = 0 then 50 else lastFinalY) + 10)
   \<and> (\<forall>i < length (fixtures s).
        table_body (exportToPDF localeDate time lastFinalY s) ! i = tableRow (fixtures s ! i)
        \<and> length (tableRow (fixtures s ! i)) = 7
        \<and> (selected_model (fixtures s ! i) = None \<longrightarrow>
              tableRow (fixtures s ! i) ! 2 = ''N/A'' \<and> tableRow (fixtures s ! i) ! 3 = ''N/A''
              \<and> tableRow (fixtures s ! i) ! 5 = ''$0.00'' \<and> tableRow (fixtures s ! i) ! 6 = ''$0.00'')
        \<and> ((\<forall>m. selected_model (fixtures s ! i) = Some m \<longrightarrow>
                  0 \<le> unit_price m \<and> unit_price m < 10 ^ 21) \<longrightarrow>
              money_format (tableRow (fixtures s ! i) ! 5))
        \<and> (0 \<le> or_zero (selected_unit_price (fixtures s ! i)) * of_int (quantity (fixtures s ! i))
             \<and> or_zero (selected_unit_price (fixtures s ! i)) * of_int (quantity (fixtures s ! i)) < 10 ^ 21
             \<longrightarrow> money_format (tableRow (fixtures s ! i) ! 6)))
   \<and> (0 \<le> totalCost s \<and> totalCost s < 10 ^ 21 \<longrightarrow> money_format (''$'' @ toFixed2 (totalCost s)))"
proof -
  have shape: "length (table_body (exportToPDF localeDate time lastFinalY s)) = length (fixtures s)"
    "length (table_head (exportToPDF localeDate time lastFinalY s)) = 1"
    "last (texts (exportToPDF localeDate time lastFinalY s))
       = (''Total Project Cost: $'' @ toFixed2 (totalCost s), 14,
          (if lastFinalY = 0 then 50 else lastFinalY) + 10)"
    by (simp_all add: exportToPDF_def Let_def)
  have row: "table_body (exportToPDF localeDate time lastFinalY s) ! i = tableRow (fixtures s ! i)"
    if "i < length (fixtures s)" for i
    using that by (simp add: exportToPDF_def Let_def)
  have cells: "length (tableRow fixture) = 7" for fixture
    by (simp add: tableRow_def)
  have total: "0 \<le> totalCost s \<and> totalCost s < 10 ^ 21 \<longrightarrow> money_format (''$'' @ toFixed2 (totalCost s))"
    using money_format_toFixed2 [of "totalCost s"] by blast
  from shape row cells total tableRow_unresolved tableRow_unit_price_cell tableRow_line_total_cell
  show ?thesis by (intro conjI allI impI) blast+
qed


text \<open>
  The sample session after selecting the unknown id Z: the row of f1 is unresolved, the
  row of f2 is priced at 12.99.
\<close>

theorem exportToPDF_rows_and_money_witness:
  "length (fixtures (handleModelChange ''f1'' ''Z'' None sample_loaded)) = 2
   \<and> length (table_body (exportToPDF ''3/11/2026'' 1780000000000 120
                 (handleModelChange ''f1'' ''Z'' None sample_loaded))) = 2
   \<and> selected_model (fixtures (handleModelChange ''f1'' ''Z'' None sample_loaded) ! 0) = None
   \<and> table_body (exportToPDF ''3/11/2026'' 1780000000000 120
                 (handleModelChange ''f1'' ''Z'' None sample_loaded)) ! 0
       = [''LIGHT_01'', ''Lobby'', ''N/A'', ''N/A'', ''2'', ''$0.00'', ''$0.00'']
   \<and> selected_model (fixtures (handleModelChange ''f1'' ''Z'' None sample_loaded) ! 1)
       = Some (sample_model ''B'' ''LED Panel'' (1299 / 100))
   \<and> table_body (exportToPDF ''3/11/2026'' 1780000000000 120
                 (handleModelChange ''f1'' ''Z'' None sample_loaded)) ! 1
       = [''LIGHT_01'', ''Lobby'', ''Model B'', ''Acme'', ''1'', ''$12.99'', ''$12.99'']
   \<and> money_format (tableRow (fixtures (handleModelChange ''f1'' ''Z'' None sample_loaded) ! 1) ! 5)
   \<and> money_format (tableRow (fixtures (handleModelChange ''f1'' ''Z'' None sample_loaded) ! 1) ! 6)
   \<and> totalCost (handleModelChange ''f1'' ''Z'' None sample_loaded) = 1299 / 100
   \<and> money_format (''$'' @ toFixed2 (totalCost (handleModelChange ''f1'' ''Z'' None sample_loaded)))"
proof -
  let ?u = "handleModelChange ''f1'' ''Z'' None sample_loaded"
  let ?doc = "exportToPDF ''3/11/2026'' 1780000000000 120 ?u"
  note t = exportToPDF_rows_and_money [of "''3/11/2026''" 1780000000000 120 ?u]
  have len: "length (fixtures ?u) = 2"
    by (simp add: fixtures_sample_unresolved)
  then have i: "0 < length (fixtures ?u)" "1 < length (fixtures ?u)"
    by simp_all
  have m0: "selected_model (fixtures ?u ! 0) = None"
    by (simp add: fixtures_sample_unresolved sample_row_def)
  have m1: "selected_model (fixtures ?u ! 1) = Some (sample_model ''B'' ''LED Panel'' (1299 / 100))"
    by (simp add: fixtures_sample_unresolved sample_row_def)
  have q1: "quantity (fixtures ?u ! 1) = 1"
    by (simp add: fixtures_sample_unresolved sample_row_def)
  have p1: "unit_price (sample_model ''B'' ''LED Panel'' (1299 / 100)) = 1299 / 100"
    by (simp add: sample_model_def)
  have price: "\<forall>m. selected_model (fixtures ?u ! 1) = Some m \<longrightarrow> 0 \<le> unit_price m \<and> unit_price m < 10 ^ 21"
    using m1 p1 by auto
  have line: "0 \<le> or_zero (selected_unit_price (fixtures ?u ! 1)) * of_int (quantity (fixtures ?u ! 1))
              \<and> or_zero (selected_unit_price (fixtures ?u ! 1)) * of_int (quantity (fixtures ?u ! 1)) < 10 ^ 21"
    using m1 p1 q1 by (simp add: selected_unit_price_def or_zero_def)
  have tc: "totalCost ?u = 1299 / 100"
    by (simp add: handleModelChange_ok reduce_total_spec fixtures_sample_loaded find_Z_loaded
          spec_total_def spec_line_total_def sample_row_def sample_model_def)
  have r0: "tableRow (fixtures ?u ! 0) = [''LIGHT_01'', ''Lobby'', ''N/A'', ''N/A'', ''2'', ''$0.00'', ''$0.00'']"
    unfolding fixtures_sample_unresolved nth_Cons_0 by code_simp
  have r1: "tableRow (fixtures ?u ! 1) = [''LIGHT_01'', ''Lobby'', ''Model B'', ''Acme'', ''1'', ''$12.99'', ''$12.99'']"
    unfolding fixtures_sample_unresolved by code_simp
  from t have a: "length (table_body ?doc) = length (fixtures ?u)"
    by blast
  from t i have b: "table_body ?doc ! 0 = tableRow (fixtures ?u ! 0)"
    "table_body ?doc ! 1 = tableRow (fixtures ?u ! 1)"
    by blast+
  from t i(2) price have c: "money_format (tableRow (fixtures ?u ! 1) ! 5)"
    by blast
  from t i(2) line have d: "money_format (tableRow (fixtures ?u ! 1) ! 6)"
    by blast
  have "0 \<le> totalCost ?u \<and> totalCost ?u < 10 ^ 21"
    by (simp add: tc)
  with t have e: "money_format (''$'' @ toFixed2 (totalCost ?u))"
    by blast
  from len a m0 m1 b r0 r1 c d tc e show ?thesis
    by simp
qed

section \<open>Upload: results\<close>

lemma random_below_range:
  assumes "0 \<le> r" and "r < 1" and "0 < k"
  shows "0 \<le> random_below r k \<and> random_below r k < k"
proof -
  have "r * of_int k < 1 * of_int k"
    using assms(2,3) by (intro mult_strict_right_mono) simp_all
  then have "\<lfloor>r * of_int k\<rfloor> < k"
    by (simp add: floor_less_iff)
  moreover have "0 \<le> r * of_int k"
    using assms(1,3) by simp
  then have "0 \<le> \<lfloor>r * of_int k\<rfloor>"
    by simp
  ultimately show ?thesis
    by (simp add: random_below_def)
qed

lemma simulateProcessing_result: "simulateProcessing s = s\<lparr>uploadProgress := 100\<rparr>"
  by (simp add: simulateProcessing_def simulateProcessing_from.simps)

lemma fixturesData_loop_done:
  "\<not> int i < min totalFixtures 15 \<Longrightarrow>
   fixturesData_loop random projectDataId models totalFixtures i fixturesData = Inr fixturesData"
  by (subst fixturesData_loop.simps) (simp only: if_False)

lemma fixturesData_loop_throw:
  "int i < min totalFixtures 15 \<Longrightarrow>
   js_index models (random_below (random (2 + 5 * i)) (int (length models))) = None \<Longrightarrow>
   fixturesData_loop random projectDataId models totalFixtures i fixturesData = Inl TypeError"
  by (subst fixturesData_loop.simps) (simp only: if_True option.case)

lemma fixturesData_loop_step:
  "int i < min totalFixtures 15 \<Longrightarrow>
   js_index models (random_below (random (2 + 5 * i)) (int (length models))) = Some randomModel \<Longrightarrow>
   fixturesData_loop random projectDataId models totalFixtures i fixturesData
   = fixturesData_loop random projectDataId models totalFixtures (i + 1)
       (fixturesData @
         [\<lparr>new_project_id = projectDataId,
           new_room_name = js_index rooms (random_below (random (2 + 5 * i + 1)) (int (length rooms))),
           new_detected_symbol = js_index symbols (random_below (random (2 + 5 * i + 2)) (int (length symbols))),
           new_selected_model_id = id_model randomModel,
           new_quantity = random_below (random (2 + 5 * i + 3)) 5 + 1,
           new_lux_level = random_below (random (2 + 5 * i + 4)) 200 + 300\<rparr>])"
  by (subst fixturesData_loop.simps) (simp only: if_True option.case)

lemma fixturesData_loop_length:
  "fixturesData_loop random projectDataId models totalFixtures i fixturesData = Inr result \<Longrightarrow>
   length result = length fixturesData + (nat (min totalFixtures 15) - i)"
proof (induction random projectDataId models totalFixtures i fixturesData
       rule: fixturesData_loop.induct)
  case (1 random projectDataId models totalFixtures i fixturesData)
  show ?case
  proof (cases "int i < min totalFixtures 15")
    case False
    with "1.prems" have "result = fixturesData"
      by (simp only: fixturesData_loop_done [OF False] sum.inject)
    with False show ?thesis by auto
  next
    case True
    show ?thesis
    proof (cases "js_index models (random_below (random (2 + 5 * i)) (int (length models)))")
      case None
      with True "1.prems" show ?thesis
        by (simp only: fixturesData_loop_throw [where random = random and i = i, OF True None] sum.distinct)
    next
      case (Some randomModel)
      from "1.prems" have "length result
          = length (fixturesData @
                    [\<lparr>new_project_id = projectDataId,
                      new_room_name = js_index rooms (random_below (random (2 + 5 * i + 1)) (int (length rooms))),
                      new_detected_symbol = js_index symbols (random_below (random (2 + 5 * i + 2)) (int (length symbols))),
                      new_selected_model_id = id_model randomModel,
                      new_quantity = random_below (random (2 + 5 * i + 3)) 5 + 1,
                      new_lux_level = random_below (random (2 + 5 * i + 4)) 200 + 300\<rparr>])
            + (nat (min totalFixtures 15) - (i + 1))"
        by (intro "1.IH" [OF True Some]) (simp only: fixturesData_loop_step [where random = random and i = i, OF True Some])
      with True show ?thesis by auto
    qed
  qed
qed

lemma fixturesData_loop_succeeds:
  assumes "models \<noteq> []" and "\<forall>k. 0 \<le> random k \<and> random k < 1"
  shows "\<exists>result. fixturesData_loop random projectDataId models totalFixtures i fixturesData = Inr result"
  using assms
proof (induction random projectDataId models totalFixtures i fixturesData
       rule: fixturesData_loop.induct)
  case (1 random projectDataId models totalFixtures i fixturesData)
  show ?case
  proof (cases "int i < min totalFixtures 15")
    case False
    then show ?thesis
      by (simp only: fixturesData_loop_done [OF False]) blast
  next
    case True
    have "0 < int (length models)" using "1.prems"(1) by simp
    with "1.prems"(2) have "0 \<le> random_below (random (2 + 5 * i)) (int (length models))
        \<and> random_below (random (2 + 5 * i)) (int (length models)) < int (length models)"
      by (intro random_below_range) simp_all
    then obtain randomModel where
      Some: "js_index models (random_below (random (2 + 5 * i)) (int (length models))) = Some randomModel"
      by (simp add: js_index_def)
    from "1.IH" [OF True Some "1.prems"] show ?thesis
      by (simp only: fixturesData_loop_step [where random = random and i = i, OF True Some])
  qed
qed

lemma handleSubmit_succeeds:
  assumes "file_state s = Some f" and "\<not> blank (projectName s)"
    and "models \<noteq> []" and "\<forall>k. 0 \<le> random k \<and> random k < 1"
  shows "success (fst (handleSubmit random \<lparr>data = Some projectData, error = None\<rparr>
                         \<lparr>data = Some models, error = None\<rparr> None s))"
proof -
  obtain result where
    "fixturesData_loop random (id_project projectData) models (random_below (random 0) 50 + 10) 0 []
       = Inr result"
    using fixturesData_loop_succeeds [OF assms(3,4)] by blast
  with assms(1,2) show ?thesis
    unfolding handleSubmit_def Let_def simulateProcessing_result by simp
qed

text \<open>
  Claim C10. Whenever \<open>handleSubmit\<close> ends in success, with \<open>Math.random()\<close> in
  \<open>[0, 1)\<close>, its store calls are the project insert, the catalog query and one fixture
  insert; the project's \<open>total_fixtures\<close> is the drawn value
  \<open>Math.floor(Math.random() * 50) + 10\<close>, between 10 and 59; the fixture insert carries
  exactly \<open>min(totalFixtures, 15)\<close> rows; so whenever \<open>totalFixtures\<close> exceeds 15 the
  stored count is strictly greater than the number of fixture rows persisted.
\<close>

theorem handleSubmit_fixture_rows:
  assumes "0 \<le> random 0" and "random 0 < 1"
    and "success (fst (handleSubmit random projectResp modelsResp fixturesError s))"
  shows "\<exists>p fixturesData (projectData :: Project).
           snd (handleSubmit random projectResp modelsResp fixturesError s)
             = [InsertProject p, SelectModelsLimit 5, InsertFixtures fixturesData,
                NavigateLater ''results'' (id_project projectData)]
         \<and> new_total_fixtures p = random_below (random 0) 50 + 10
         \<and> 10 \<le> new_total_fixtures p \<and> new_total_fixtures p \<le> 59
         \<and> int (length fixturesData) = min (new_total_fixtures p) 15
         \<and> (15 < new_total_fixtures p \<longrightarrow> int (length fixturesData) < new_total_fixtures p)"
proof -
  define totalFixtures where "totalFixtures = random_below (random 0) 50 + 10"
  have range: "10 \<le> totalFixtures \<and> totalFixtures \<le> 59"
    using random_below_range [OF assms(1,2), of 50] by (simp add: totalFixtures_def)
  from assms(3) obtain f projectData models fixturesData where
    run: "file_state s = Some f" "\<not> blank (projectName s)"
      "error projectResp = None" "error modelsResp = None"
      "data projectResp = Some projectData" "data modelsResp = Some models"
      "fixturesData_loop random (id_project projectData) models totalFixtures 0 [] = Inr fixturesData"
      "fixturesError = None"
    unfolding handleSubmit_def Let_def totalFixtures_def simulateProcessing_result
    by (auto split: option.splits if_splits sum.splits)
  have len: "int (length fixturesData) = min totalFixtures 15"
    using fixturesData_loop_length [OF run(7)] range by simp
  let ?p = "\<lparr>new_name = projectName s, new_file_name = file_name_of f,
              new_file_type = fileType_of (file_name_of f), new_total_fixtures = totalFixtures,
              new_total_cost = of_int totalFixtures * (355 / 10),
              new_average_lux = random_below (random 1) 200 + 300,
              new_user_id = ''00000000-0000-0000-0000-000000000000''\<rparr>"
  have effects: "snd (handleSubmit random projectResp modelsResp fixturesError s)
             = [InsertProject ?p, SelectModelsLimit 5, InsertFixtures fixturesData,
                NavigateLater ''results'' (id_project projectData)]"
    using run unfolding handleSubmit_def Let_def totalFixtures_def simulateProcessing_result
    by simp
  have facts: "new_total_fixtures ?p = random_below (random 0) 50 + 10"
    "10 \<le> new_total_fixtures ?p \<and> new_total_fixtures ?p \<le> 59"
    "int (length fixturesData) = min (new_total_fixtures ?p) 15"
    "15 < new_total_fixtures ?p \<longrightarrow> int (length fixturesData) < new_total_fixtures ?p"
    using range len by (simp_all add: totalFixtures_def)
  show ?thesis
    using effects facts
    by (intro exI [where x = "?p"] exI [where x = fixturesData] exI [where x = projectData]) simp
qed


text \<open>
  An upload where every call of \<open>Math.random()\<close> gives 0.5: 35 fixtures are recorded on
  the project and 15 rows are inserted.
\<close>

theorem handleSubmit_fixture_rows_witness:
  "0 \<le> (1 / 2 :: rat) \<and> (1 / 2 :: rat) < 1
   \<and> success (fst (handleSubmit (\<lambda>call. 1 / 2) \<lparr>data = Some sample_project, error = None\<rparr>
                      \<lparr>data = Some sample_catalog, error = None\<rparr> None sample_upload))
   \<and> (\<exists>p fixturesData (projectData :: Project).
         snd (handleSubmit (\<lambda>call. 1 / 2) \<lparr>data = Some sample_project, error = None\<rparr>
                \<lparr>data = Some sample_catalog, error = None\<rparr> None sample_upload)
           = [InsertProject p, SelectModelsLimit 5, InsertFixtures fixturesData,
              NavigateLater ''results'' (id_project projectData)]
         \<and> new_total_fixtures p = 35 \<and> length fixturesData = 15
         \<and> 15 < new_total_fixtures p
         \<and> int (length fixturesData) < new_total_fixtures p)"
proof -
  let ?run = "handleSubmit (\<lambda>call. 1 / 2) \<lparr>data = Some sample_project, error = None\<rparr>
                \<lparr>data = Some sample_catalog, error = None\<rparr> None sample_upload"
  have r: "0 \<le> (1 / 2 :: rat)" "(1 / 2 :: rat) < 1"
    by simp_all
  have "\<not> blank (projectName sample_upload)"
    by (simp add: sample_upload_def blank_def)
  then have ok: "success (fst ?run)"
    by (intro handleSubmit_succeeds) (simp_all add: sample_upload_def sample_catalog_def)
  have total: "random_below (1 / 2) 50 + 10 = 35"
    by (simp add: random_below_def)
  from handleSubmit_fixture_rows [of "\<lambda>call. 1 / 2", OF r ok] obtain p fixturesData
    and projectData :: Project where
    run: "snd ?run = [InsertProject p, SelectModelsLimit 5, InsertFixtures fixturesData,
              NavigateLater ''results'' (id_project projectData)]"
      "new_total_fixtures p = random_below (1 / 2) 50 + 10"
      "int (length fixturesData) = min (new_total_fixtures p) 15"
    by blast
  from run(2,3) total have "new_total_fixtures p = 35" "length fixturesData = 15"
    by simp_all
  with run(1) r ok show ?thesis
    by (intro conjI exI [where x = p] exI [where x = fixturesData] exI [where x = projectData]) simp_all
qed

end
